theory Spec2Isabelle
  imports Complex_Main
begin

section \<open>Numbers, vectors and errors\<close>

text \<open>
  The library computes with C++ \<open>double\<close>. Rounding, overflow to infinity and
  signed zeros are abstracted away: a finite \<open>double\<close> is a real number and the
  operations on finite numbers are exact.

  The values that decide the control flow of \<open>ConstrainedFunction\<close> (what a term
  returns from its value-only \<open>evaluate\<close>, hence what \<open>Function::evaluate()\<close>
  returns, the multipliers, the cached constraint values and the locals of \<open>solve\<close>)
  are of the type \<open>double\<close> below, which has the IEEE special values NaN and the two
  infinities beside the real numbers. The points at which functions are evaluated, the
  gradients and the Hessians, which serve the inner solver, are vectors and matrices of
  real numbers, as are \<open>mu\<close>, \<open>nu\<close> and the tolerances.

  An \<open>Eigen::VectorXd\<close> or a \<open>std::vector\<close> of doubles is a list of reals, an
  \<open>Eigen::MatrixXd\<close> a list of rows. Arities, dimensions and indices are natural
  numbers: a negative \<open>int\<close> dimension cannot be registered, because
  \<open>temp_space.resize\<close> in \<open>add_variable_internal\<close> throws on it.
\<close>

type_synonym vec = "real list"
type_synonym mat = "real list list"

text \<open>
  Every \<open>throw std::runtime_error(...)\<close> and every failing \<open>check(...)\<close> of the
  methods of \<open>Function\<close> and \<open>ConstrainedFunction\<close> is one constructor. An exception
  that leaves a term's \<open>evaluate\<close> is \<open>TermFailure\<close> with its message: an error
  value tells where it was raised. \<open>HessianAccessOutOfBounds\<close> is not an exception:
  it marks an access outside a matrix in the dense Hessian scatter, which is undefined
  behaviour in the source; the model stops there and says so.
\<close>

datatype error =
    AddVariableDimensionMismatch
  | AddVariableChangeOfVariablesMismatch
  | AddTermIncorrectNumberOfArguments
  | AddTermUnknownVariable
  | AddTermVariableDimensionMismatch
  | HessianNotEnabled
  | HessianNull
  | ChangeOfVariablesNotSupportedForHessians
  | ChangeOfVariablesNotSupportedForSparseHessian
  | TermFailure string
  | HessianAccessOutOfBounds

section \<open>Special values of double\<close>

text \<open>
  A \<open>double\<close> is a real number or one of the three special values, with the
  IEEE 754 rules for them: an operation on NaN gives NaN, infinity minus infinity and
  zero times infinity and zero over zero are NaN, a nonzero number over zero is
  infinite, every comparison with NaN is false. Zero has no sign here; the
  denominators that can be zero in the source are sums of a non-negative number and a
  tolerance, never the negative zero.
\<close>

datatype double = Fin real | PInf | MInf | NaN

fun dneg :: "double \<Rightarrow> double" where
  "dneg (Fin x) = Fin (- x)"
| "dneg PInf = MInf"
| "dneg MInf = PInf"
| "dneg NaN = NaN"

fun dadd :: "double \<Rightarrow> double \<Rightarrow> double" where
  "dadd (Fin x) (Fin y) = Fin (x + y)"
| "dadd NaN b = NaN"
| "dadd a NaN = NaN"
| "dadd PInf MInf = NaN"
| "dadd MInf PInf = NaN"
| "dadd PInf b = PInf"
| "dadd MInf b = MInf"
| "dadd a PInf = PInf"
| "dadd a MInf = MInf"

fun dsub :: "double \<Rightarrow> double \<Rightarrow> double" where
  "dsub (Fin x) (Fin y) = Fin (x - y)"
| "dsub NaN b = NaN"
| "dsub a NaN = NaN"
| "dsub PInf PInf = NaN"
| "dsub MInf MInf = NaN"
| "dsub PInf b = PInf"
| "dsub MInf b = MInf"
| "dsub a PInf = MInf"
| "dsub a MInf = PInf"

fun dmul :: "double \<Rightarrow> double \<Rightarrow> double" where
  "dmul (Fin x) (Fin y) = Fin (x * y)"
| "dmul NaN b = NaN"
| "dmul a NaN = NaN"
| "dmul (Fin x) PInf = (if x = 0 then NaN else if 0 < x then PInf else MInf)"
| "dmul (Fin x) MInf = (if x = 0 then NaN else if 0 < x then MInf else PInf)"
| "dmul PInf (Fin y) = (if y = 0 then NaN else if 0 < y then PInf else MInf)"
| "dmul MInf (Fin y) = (if y = 0 then NaN else if 0 < y then MInf else PInf)"
| "dmul PInf PInf = PInf"
| "dmul PInf MInf = MInf"
| "dmul MInf PInf = MInf"
| "dmul MInf MInf = PInf"

fun ddiv :: "double \<Rightarrow> double \<Rightarrow> double" where
  "ddiv (Fin x) (Fin y) =
     (if y = 0 then (if x = 0 then NaN else if 0 < x then PInf else MInf) else Fin (x / y))"
| "ddiv NaN b = NaN"
| "ddiv a NaN = NaN"
| "ddiv (Fin x) b = Fin 0"
| "ddiv PInf (Fin y) = (if 0 \<le> y then PInf else MInf)"
| "ddiv MInf (Fin y) = (if 0 \<le> y then MInf else PInf)"
| "ddiv PInf b = NaN"
| "ddiv MInf b = NaN"

fun dabs :: "double \<Rightarrow> double" where
  "dabs (Fin x) = Fin \<bar>x\<bar>"
| "dabs PInf = PInf"
| "dabs MInf = PInf"
| "dabs NaN = NaN"

fun dless :: "double \<Rightarrow> double \<Rightarrow> bool" where
  "dless (Fin x) (Fin y) = (x < y)"
| "dless NaN b = False"
| "dless a NaN = False"
| "dless MInf MInf = False"
| "dless MInf b = True"
| "dless PInf b = False"
| "dless a PInf = True"
| "dless a MInf = False"

fun dle :: "double \<Rightarrow> double \<Rightarrow> bool" where
  "dle (Fin x) (Fin y) = (x \<le> y)"
| "dle NaN b = False"
| "dle a NaN = False"
| "dle MInf b = True"
| "dle a PInf = True"
| "dle PInf b = False"
| "dle a MInf = False"

text \<open>\<open>std::max(a, b)\<close> is \<open>(a < b) ? b : a\<close>.\<close>

definition dmax :: "double \<Rightarrow> double \<Rightarrow> double" where
  "dmax a b = (if dless a b then b else a)"

section \<open>Terms\<close>

text \<open>
  \<open>Term\<close> is an abstract class; an object of it is a record of its virtual methods.
  The three overloads of \<open>Term::evaluate\<close> are three fields. \<open>variables\<close> (an array of
  pointers to the arguments' storage) is the list of the arguments' vectors. The
  gradient and Hessian are in-out parameters: the method receives the scratch and
  returns it updated. A method that throws returns the message of its exception.
  The value-only overload returns any \<open>double\<close>, special values included; the
  overloads with derivatives are modelled where their results are finite.
\<close>

record Term =
  number_of_variables :: nat
  variable_dimension :: "nat \<Rightarrow> nat"
  term_evaluate :: "vec list \<Rightarrow> string + double"
  term_evaluate_gradient :: "vec list \<Rightarrow> vec list \<Rightarrow> string + real \<times> vec list"
  term_evaluate_hessian ::
    "vec list \<Rightarrow> vec list \<Rightarrow> mat list list \<Rightarrow> string + real \<times> vec list \<times> mat list list"

section \<open>The Phi wrapper\<close>

text \<open>
  \<open>class Phi\<close> of constrained\_function.cpp. \<open>sigma\<close> and \<open>mu\<close> are pointers read at
  every evaluation; the embedding passes the values they hold at that moment. The two
  branches of each evaluator are named so that they can be compared with each other.
  The source divides by \<open>*mu\<close>; in HOL \<open>x / 0 = 0\<close>, so the model follows the source
  only for \<open>mu \<noteq> 0\<close> (\<open>solve\<close> sets \<open>mu = 10\<close> and only ever multiplies it by 100).
  \<open>sigma\<close> and \<open>mu\<close> are finite numbers; the value \<open>t\<close> of the wrapped term in the
  value-only evaluator is any \<open>double\<close>, and \<open>Phi_value_quadratic_double\<close> is the
  first branch as computed on it.
\<close>

definition Phi_value_quadratic :: "real \<Rightarrow> real \<Rightarrow> real \<Rightarrow> real" where
  "Phi_value_quadratic sigma mu t = sigma * t + (mu / 2) * t * t"

definition Phi_value_constant :: "real \<Rightarrow> real \<Rightarrow> real" where
  "Phi_value_constant sigma mu = - 1 / (2 * mu) * sigma * sigma"

definition Phi_gradient_quadratic :: "real \<Rightarrow> real \<Rightarrow> real \<Rightarrow> real \<Rightarrow> real" where
  "Phi_gradient_quadratic sigma mu t g = sigma * g + mu * t * g"

definition Phi_gradient_constant :: "real \<Rightarrow> real" where
  "Phi_gradient_constant g = 0"

definition Phi_value_quadratic_double :: "real \<Rightarrow> real \<Rightarrow> double \<Rightarrow> double" where
  "Phi_value_quadratic_double sigma mu t =
     dadd (dmul (Fin sigma) t) (dmul (dmul (Fin (mu / 2)) t) t)"

definition Phi_evaluate :: "Term \<Rightarrow> real \<Rightarrow> real \<Rightarrow> vec list \<Rightarrow> string + double" where
  "Phi_evaluate term sigma mu variables =
     (case term_evaluate term variables of
        Inl e \<Rightarrow> Inl e
      | Inr t \<Rightarrow>
          if dle (dsub (dneg t) (Fin (sigma / mu))) (Fin 0)
          then Inr (Phi_value_quadratic_double sigma mu t)
          else Inr (Fin (Phi_value_constant sigma mu)))"

text \<open>
  The assignment \<open>(*gradient)[i][j] = f((*gradient)[i][j])\<close> and the two nested
  \<open>for\<close> loops over \<open>i < number_of_variables()\<close> and \<open>j < variable_dimension(i)\<close>.
  An index outside the scratch is undefined behaviour in C++ and leaves the list
  unchanged here; \<open>Function::allocate_local_storage\<close> sizes the scratch so that it
  does not happen.
\<close>

definition assign_entry :: "(real \<Rightarrow> real) \<Rightarrow> nat \<Rightarrow> nat \<Rightarrow> vec list \<Rightarrow> vec list" where
  "assign_entry f i j gradient = gradient[i := (gradient ! i)[j := f (gradient ! i ! j)]]"

definition for_each_gradient_entry :: "Term \<Rightarrow> (real \<Rightarrow> real) \<Rightarrow> vec list \<Rightarrow> vec list" where
  "for_each_gradient_entry term f gradient =
     fold (\<lambda>i gr. fold (\<lambda>j gr'. assign_entry f i j gr') [0..<variable_dimension term i] gr)
          [0..<number_of_variables term] gradient"

definition Phi_evaluate_gradient ::
  "Term \<Rightarrow> real \<Rightarrow> real \<Rightarrow> vec list \<Rightarrow> vec list \<Rightarrow> string + real \<times> vec list" where
  "Phi_evaluate_gradient term sigma mu variables gradient =
     (case term_evaluate_gradient term variables gradient of
        Inl e \<Rightarrow> Inl e
      | Inr (t, gradient') \<Rightarrow>
          if - t - sigma / mu \<le> 0 then
            Inr (Phi_value_quadratic sigma mu t,
                 for_each_gradient_entry term (Phi_gradient_quadratic sigma mu t) gradient')
          else
            Inr (Phi_value_constant sigma mu,
                 for_each_gradient_entry term Phi_gradient_constant gradient'))"

definition Phi_evaluate_hessian ::
  "Term \<Rightarrow> real \<Rightarrow> real \<Rightarrow> vec list \<Rightarrow> vec list \<Rightarrow> mat list list
     \<Rightarrow> string + real \<times> vec list \<times> mat list list" where
  "Phi_evaluate_hessian term sigma mu variables gradient H = Inl ''Phi: hessian not supported.''"

text \<open>The object \<open>Phi(term, &sigma, &mu)\<close> as a \<open>Term\<close>, at given contents of the two cells.\<close>

definition Phi :: "Term \<Rightarrow> real \<Rightarrow> real \<Rightarrow> Term" where
  "Phi term sigma mu =
     \<lparr> number_of_variables = number_of_variables term,
       variable_dimension = variable_dimension term,
       term_evaluate = Phi_evaluate term sigma mu,
       term_evaluate_gradient = Phi_evaluate_gradient term sigma mu,
       term_evaluate_hessian = Phi_evaluate_hessian term sigma mu \<rparr>"

text \<open>
  The specification's Phi (section 4.4), written from its words: on real numbers, and
  the same formulas read in \<open>double\<close> for a value \<open>t\<close> that may be special.
\<close>

definition spec_Phi_value :: "real \<Rightarrow> real \<Rightarrow> real \<Rightarrow> real" where
  "spec_Phi_value sigma mu t =
     (if - t - sigma / mu \<le> 0 then sigma * t + (mu / 2) * t\<^sup>2 else - (sigma\<^sup>2) / (2 * mu))"

definition spec_Phi_value_double :: "real \<Rightarrow> real \<Rightarrow> double \<Rightarrow> double" where
  "spec_Phi_value_double sigma mu t =
     (if dle (dsub (dneg t) (Fin (sigma / mu))) (Fin 0)
      then dadd (dmul (Fin sigma) t) (dmul (Fin (mu / 2)) (dmul t t))
      else Fin (- (sigma\<^sup>2) / (2 * mu)))"

definition spec_Phi_gradient :: "real \<Rightarrow> real \<Rightarrow> real \<Rightarrow> real \<Rightarrow> real" where
  "spec_Phi_gradient sigma mu t g =
     (if - t - sigma / mu \<le> 0 then (sigma + mu * t) * g else 0)"

text \<open>A constraint term used in the examples: \<open>c(x) = x - 2\<close> on one scalar variable.\<close>

definition example_term :: Term where
  "example_term =
     \<lparr> number_of_variables = 1,
       variable_dimension = (\<lambda>i. 1),
       term_evaluate = (\<lambda>vs. Inr (Fin (vs ! 0 ! 0 - 2))),
       term_evaluate_gradient = (\<lambda>vs gr. Inr (vs ! 0 ! 0 - 2, gr[0 := (gr ! 0)[0 := 1]])),
       term_evaluate_hessian =
         (\<lambda>vs gr hs. Inr (vs ! 0 ! 0 - 2, gr[0 := (gr ! 0)[0 := 1]],
                         hs[0 := (hs ! 0)[0 := [[0]]]])) \<rparr>"

text \<open>An objective term used in the examples: \<open>f(x) = (x - 3)\<^sup>2\<close> on one scalar variable.\<close>

definition quadratic_term :: Term where
  "quadratic_term =
     \<lparr> number_of_variables = 1,
       variable_dimension = (\<lambda>i. 1),
       term_evaluate = (\<lambda>vs. Inr (Fin ((vs ! 0 ! 0 - 3)\<^sup>2))),
       term_evaluate_gradient =
         (\<lambda>vs gr. Inr ((vs ! 0 ! 0 - 3)\<^sup>2, gr[0 := (gr ! 0)[0 := 2 * (vs ! 0 ! 0 - 3)]])),
       term_evaluate_hessian =
         (\<lambda>vs gr hs. Inr ((vs ! 0 ! 0 - 3)\<^sup>2, gr[0 := (gr ! 0)[0 := 2 * (vs ! 0 ! 0 - 3)]],
                         hs[0 := (hs ! 0)[0 := [[2]]]])) \<rparr>"

section \<open>Function: variables and terms\<close>

text \<open>
  function.cpp. The header with the class declarations is not part of the sources at
  hand; the fields below are the members the method bodies read and write. Timing
  and evaluation counters are left out: nothing reads them back.

  A \<open>ChangeOfVariables\<close> object is again a record of its methods. Its pointer
  arguments are the vectors they point to: \<open>t_to_x\<close> receives the solver vector
  from the variable's offset on and returns the user vector, \<open>update_gradient\<close>
  receives the accumulated solver gradient and the solver vector from the offset on
  and the user-space gradient, and returns the new solver gradient from the offset on.
\<close>

record ChangeOfVariables =
  x_dimension :: nat
  t_dimension :: nat
  t_to_x :: "vec \<Rightarrow> vec"
  x_to_t :: "vec \<Rightarrow> vec"
  update_gradient :: "vec \<Rightarrow> vec \<Rightarrow> vec \<Rightarrow> vec"

record AddedVariable =
  user_dimension :: nat
  solver_dimension :: nat
  global_index :: nat
  change_of_variables :: "ChangeOfVariables option"
  temp_space :: vec

text \<open>
  A variable is identified by the address of the user's storage (\<open>double*\<close>), here
  any type \<open>'k\<close>. \<open>user_variables\<close> holds pointers to \<open>AddedVariable\<close> objects inside
  the map; the model holds the keys and dereferences by lookup. \<open>temp_variables\<close>
  (pointers to the same variables' \<open>temp_space\<close>) is derived from them.
\<close>

record 'k AddedTerm =
  added_term :: Term
  user_variables :: "'k list"
  hessian :: "mat list list"

text \<open>
  \<open>variables\<close> is a \<open>std::map\<close> from address to \<open>AddedVariable\<close>. The model keeps
  it as an association list in the order of insertion, new entries at the end, so that
  "registered before" can be said; no method depends on the order in which the map is
  traversed. The build without OpenMP is modelled: \<open>number_of_threads = 1\<close> and the
  thread number is always 0, so the per-thread buffers are single buffers.
\<close>

record 'k Function =
  variables :: "('k \<times> AddedVariable) list"
  terms :: "'k AddedTerm list"
  number_of_scalars :: nat
  hessian_is_enabled :: bool
  number_of_hessian_elements :: nat
  local_storage_allocated :: bool
  thread_gradient_scratch :: "vec list"
  thread_gradient_storage :: vec

definition Function_new :: "'k Function" where
  "Function_new =
     \<lparr> variables = [], terms = [], number_of_scalars = 0, hessian_is_enabled = True,
       number_of_hessian_elements = 0, local_storage_allocated = False,
       thread_gradient_scratch = [], thread_gradient_storage = [] \<rparr>"

definition find_variable :: "('k, 'a) Function_scheme \<Rightarrow> 'k \<Rightarrow> AddedVariable option" where
  "find_variable F variable = map_of (variables F) variable"

text \<open>
  \<open>Function::add_variable_internal\<close>. A successful call returns the new state. A
  failing call returns the error only: the exception leaves the object with
  \<open>local_storage_allocated = false\<close> and, for the second error, with a half-built map
  entry, which the sum type does not show. \<open>temp_space.resize\<close> value-initialises.
\<close>

definition add_variable_internal ::
  "'k \<Rightarrow> nat \<Rightarrow> ChangeOfVariables option \<Rightarrow> 'k Function \<Rightarrow> error + 'k Function" where
  "add_variable_internal variable dimension cov F =
     (let F1 = F\<lparr>local_storage_allocated := False\<rparr> in
      case find_variable F1 variable of
        Some v \<Rightarrow>
          if user_dimension v \<noteq> dimension then Inl AddVariableDimensionMismatch
          else Inr F1
      | None \<Rightarrow>
          (case cov of
             Some c \<Rightarrow>
               if dimension \<noteq> x_dimension c then Inl AddVariableChangeOfVariablesMismatch
               else
                 Inr (F1\<lparr>variables := variables F1 @
                            [(variable,
                              \<lparr> user_dimension = x_dimension c,
                                solver_dimension = t_dimension c,
                                global_index = number_of_scalars F1,
                                change_of_variables = Some c,
                                temp_space = replicate (x_dimension c) 0 \<rparr>)],
                          number_of_scalars := number_of_scalars F1 + t_dimension c\<rparr>)
           | None \<Rightarrow>
               Inr (F1\<lparr>variables := variables F1 @
                          [(variable,
                            \<lparr> user_dimension = dimension,
                              solver_dimension = dimension,
                              global_index = number_of_scalars F1,
                              change_of_variables = None,
                              temp_space = replicate dimension 0 \<rparr>)],
                        number_of_scalars := number_of_scalars F1 + dimension\<rparr>)))"

text \<open>
  \<open>Function::add_term(const Term*, const std::vector<double*>&)\<close>. The first loop
  checks the arguments in order and throws at the first bad one. The Hessian scratch
  is sized block by block; \<open>Eigen\<close> leaves its entries uninitialised, the model
  fills them with 0.
\<close>

fun check_arguments ::
  "'k Function \<Rightarrow> Term \<Rightarrow> 'k list \<Rightarrow> nat list \<Rightarrow> error option" where
  "check_arguments F t arguments [] = None"
| "check_arguments F t arguments (var # rest) =
     (case find_variable F (arguments ! var) of
        None \<Rightarrow> Some AddTermUnknownVariable
      | Some v \<Rightarrow>
          if user_dimension v \<noteq> variable_dimension t var
          then Some AddTermVariableDimensionMismatch
          else check_arguments F t arguments rest)"

definition hessian_scratch :: "Term \<Rightarrow> mat list list" where
  "hessian_scratch t =
     map (\<lambda>var0. map (\<lambda>var1. replicate (variable_dimension t var0)
                               (replicate (variable_dimension t var1) 0))
                      [0..<number_of_variables t])
         [0..<number_of_variables t]"

definition add_term :: "Term \<Rightarrow> 'k list \<Rightarrow> 'k Function \<Rightarrow> error + 'k Function" where
  "add_term t arguments F =
     (let F1 = F\<lparr>local_storage_allocated := False\<rparr> in
      if number_of_variables t \<noteq> length arguments
      then Inl AddTermIncorrectNumberOfArguments
      else
        case check_arguments F1 t arguments [0..<number_of_variables t] of
          Some e \<Rightarrow> Inl e
        | None \<Rightarrow>
            Inr (F1\<lparr>terms := terms F1 @
                       [\<lparr> added_term = t,
                          user_variables = map (\<lambda>var. arguments ! var) [0..<number_of_variables t],
                          hessian = (if hessian_is_enabled F1 then hessian_scratch t else []) \<rparr>]\<rparr>))"

text \<open>
  A construction step of a \<open>Function\<close> and a sequence of them, stopping at the first
  exception as the caller's control flow would.
\<close>

datatype 'k build_step =
    AddVariable 'k nat "ChangeOfVariables option"
  | AddTerm Term "'k list"

fun build_one :: "'k build_step \<Rightarrow> 'k Function \<Rightarrow> error + 'k Function" where
  "build_one (AddVariable variable dimension cov) F = add_variable_internal variable dimension cov F"
| "build_one (AddTerm t arguments) F = add_term t arguments F"

fun build :: "'k build_step list \<Rightarrow> 'k Function \<Rightarrow> error + 'k Function" where
  "build [] F = Inr F"
| "build (step # steps) F =
     (case build_one step F of Inl e \<Rightarrow> Inl e | Inr F' \<Rightarrow> build steps F')"

text \<open>
  What claim C4 speaks of: the solver dimensions of the registered variables in
  insertion order, and the index consistency of a \<open>Function\<close>.
\<close>

definition solver_dimensions :: "'k Function \<Rightarrow> nat list" where
  "solver_dimensions F = map (\<lambda>(k, v). solver_dimension v) (variables F)"

definition index_consistent :: "'k Function \<Rightarrow> bool" where
  "index_consistent F \<longleftrightarrow>
     sum_list (solver_dimensions F) = number_of_scalars F
     \<and> list_all (\<lambda>n. global_index (snd (variables F ! n)) = sum_list (take n (solver_dimensions F)))
                [0..<length (variables F)]"

section \<open>Function: evaluation\<close>

text \<open>
  A term holds pointers to variables that \<open>add_term\<close> found in the map, and nothing
  removes a variable, so dereferencing them cannot fail; the model looks the key up.
  \<open>temp_variables\<close> are the pointers to the arguments' \<open>temp_space\<close>.

  The methods below are \<open>const\<close> but write \<open>mutable\<close> members (scratch, counters);
  where a later claim reads the object after the call the new state is returned,
  otherwise only the result is.
\<close>

definition the_variable :: "('k, 'a) Function_scheme \<Rightarrow> 'k \<Rightarrow> AddedVariable" where
  "the_variable F variable = the (find_variable F variable)"

definition temp_variables :: "('k, 'a) Function_scheme \<Rightarrow> 'k AddedTerm \<Rightarrow> vec list" where
  "temp_variables F tm = map (\<lambda>variable. temp_space (the_variable F variable)) (user_variables tm)"

text \<open>\<open>for (int i = 0; i < n; ++i) target[i] = source(i)\<close>\<close>

definition copy_loop :: "nat \<Rightarrow> (nat \<Rightarrow> real) \<Rightarrow> vec \<Rightarrow> vec" where
  "copy_loop n source target = fold (\<lambda>i tg. tg[i := source i]) [0..<n] target"

text \<open>
  \<open>Function::copy_user_to_local\<close>. \<open>user\<close> is the user's memory: the vector found at
  each registered address.
\<close>

definition copy_user_to_local ::
  "('k \<Rightarrow> vec) \<Rightarrow> ('k, 'a) Function_scheme \<Rightarrow> ('k, 'a) Function_scheme" where
  "copy_user_to_local user F =
     F\<lparr>variables :=
         map (\<lambda>(variable, v).
                (variable,
                 v\<lparr>temp_space :=
                     copy_loop (user_dimension v) (\<lambda>i. user variable ! i) (temp_space v)\<rparr>))
             (variables F)\<rparr>"

text \<open>
  \<open>Function::copy_global_to_local\<close>. \<open>x\<close> has \<open>number_of_scalars\<close> entries by the
  caller's contract; reading beyond it is undefined in C++ and unspecified here.
\<close>

definition copy_global_to_local ::
  "vec \<Rightarrow> ('k, 'a) Function_scheme \<Rightarrow> ('k, 'a) Function_scheme" where
  "copy_global_to_local x F =
     F\<lparr>variables :=
         map (\<lambda>(variable, v).
                (variable,
                 case change_of_variables v of
                   None \<Rightarrow>
                     v\<lparr>temp_space :=
                         copy_loop (user_dimension v) (\<lambda>i. x ! (global_index v + i))
                                   (temp_space v)\<rparr>
                 | Some c \<Rightarrow> v\<lparr>temp_space := t_to_x c (drop (global_index v) x)\<rparr>))
             (variables F)\<rparr>"

text \<open>
  \<open>Function::evaluate_from_local_storage\<close>: the loop over the terms. Without OpenMP
  an exception of a term leaves the loop at once.
\<close>

fun evaluate_terms ::
  "('k, 'a) Function_scheme \<Rightarrow> 'k AddedTerm list \<Rightarrow> double \<Rightarrow> error + double" where
  "evaluate_terms F [] val = Inr val"
| "evaluate_terms F (tm # rest) val =
     (case term_evaluate (added_term tm) (temp_variables F tm) of
        Inl message \<Rightarrow> Inl (TermFailure message)
      | Inr v \<Rightarrow> evaluate_terms F rest (dadd val v))"

definition evaluate_from_local_storage :: "('k, 'a) Function_scheme \<Rightarrow> error + double" where
  "evaluate_from_local_storage F = evaluate_terms F (terms F) (Fin 0)"

text \<open>\<open>double Function::evaluate() const\<close>\<close>

definition evaluate_user :: "('k \<Rightarrow> vec) \<Rightarrow> ('k, 'a) Function_scheme \<Rightarrow> error + double" where
  "evaluate_user user F = evaluate_from_local_storage (copy_user_to_local user F)"

text \<open>\<open>double Function::evaluate(const Eigen::VectorXd& x) const\<close>\<close>

definition evaluate_x :: "vec \<Rightarrow> ('k, 'a) Function_scheme \<Rightarrow> error + double" where
  "evaluate_x x F = evaluate_from_local_storage (copy_global_to_local x F)"

text \<open>
  \<open>Function::allocate_local_storage\<close>, for one thread. \<open>Eigen\<close>'s \<open>resize\<close> leaves
  the entries uninitialised; the model fills them with 0.
\<close>

definition allocate_local_storage :: "'k Function \<Rightarrow> 'k Function" where
  "allocate_local_storage F =
     (let max_variable_dimension =
            fold (\<lambda>(variable, v) m. max m (user_dimension v)) (variables F) 1;
          max_arity = fold (\<lambda>tm m. max m (length (user_variables tm))) (terms F) 1
      in F\<lparr>thread_gradient_scratch := replicate max_arity (replicate max_variable_dimension 0),
           thread_gradient_storage := replicate (number_of_scalars F) 0,
           local_storage_allocated := True\<rparr>)"

text \<open>
  The steps every gradient evaluation starts with: allocate if needed, copy \<open>x\<close> to
  the local storage, zero the thread's gradient.
\<close>

definition prepare_evaluation :: "vec \<Rightarrow> 'k Function \<Rightarrow> 'k Function" where
  "prepare_evaluation x F =
     (let F1 = (if \<not> local_storage_allocated F then allocate_local_storage F else F);
          F2 = copy_global_to_local x F1
      in F2\<lparr>thread_gradient_storage := map (\<lambda>g. 0) (thread_gradient_storage F2)\<rparr>)"

text \<open>
  "Put the gradient from the term into the thread's global gradient", as in
  \<open>evaluate(x, gradient, Eigen::MatrixXd*)\<close>: a variable with a change of variables
  goes through \<open>update_gradient\<close>, which writes from \<open>&storage[global_offset]\<close> on.
\<close>

definition add_gradient_block :: "nat \<Rightarrow> nat \<Rightarrow> vec \<Rightarrow> vec \<Rightarrow> vec" where
  "add_gradient_block global_offset n block storage =
     fold (\<lambda>i st. st[global_offset + i := st ! (global_offset + i) + block ! i]) [0..<n] storage"

definition accumulate_gradient ::
  "'k Function \<Rightarrow> vec \<Rightarrow> 'k AddedTerm \<Rightarrow> vec list \<Rightarrow> vec \<Rightarrow> vec" where
  "accumulate_gradient F x tm scratch storage =
     fold (\<lambda>var st.
             let v = the_variable F (user_variables tm ! var);
                 global_offset = global_index v
             in case change_of_variables v of
                  None \<Rightarrow> add_gradient_block global_offset (user_dimension v) (scratch ! var) st
                | Some c \<Rightarrow>
                    take global_offset st @
                    update_gradient c (drop global_offset st) (drop global_offset x) (scratch ! var))
          [0..<length (user_variables tm)] storage"

text \<open>
  The loop over the terms of \<open>evaluate(x, gradient, Eigen::MatrixXd*)\<close>; \<open>with_hessian\<close>
  is the test \<open>if (hessian)\<close>. It returns the value, the scratch, the thread's gradient
  and the terms with the Hessian blocks the terms wrote.
\<close>

fun term_loop_dense ::
  "bool \<Rightarrow> 'k Function \<Rightarrow> vec \<Rightarrow> 'k AddedTerm list \<Rightarrow> real \<times> vec list \<times> vec
     \<Rightarrow> error + real \<times> vec list \<times> vec \<times> 'k AddedTerm list" where
  "term_loop_dense with_hessian F x [] (val, scratch, storage) = Inr (val, scratch, storage, [])"
| "term_loop_dense with_hessian F x (tm # rest) (val, scratch, storage) =
     (if with_hessian then
        (case term_evaluate_hessian (added_term tm) (temp_variables F tm) scratch (hessian tm) of
           Inl message \<Rightarrow> Inl (TermFailure message)
         | Inr (v, scratch', blocks) \<Rightarrow>
             (case term_loop_dense with_hessian F x rest
                     (val + v, scratch', accumulate_gradient F x tm scratch' storage) of
                Inl e \<Rightarrow> Inl e
              | Inr (val', scratch'', storage', rest') \<Rightarrow>
                  Inr (val', scratch'', storage', tm\<lparr>hessian := blocks\<rparr> # rest')))
      else
        (case term_evaluate_gradient (added_term tm) (temp_variables F tm) scratch of
           Inl message \<Rightarrow> Inl (TermFailure message)
         | Inr (v, scratch') \<Rightarrow>
             (case term_loop_dense with_hessian F x rest
                     (val + v, scratch', accumulate_gradient F x tm scratch' storage) of
                Inl e \<Rightarrow> Inl e
              | Inr (val', scratch'', storage', rest') \<Rightarrow>
                  Inr (val', scratch'', storage', tm # rest'))))"

text \<open>
  "Create the global gradient": resize if the size differs, \<open>setZero\<close>, then add the
  thread's gradient.
\<close>

definition assemble_gradient :: "nat \<Rightarrow> vec \<Rightarrow> vec \<Rightarrow> vec" where
  "assemble_gradient n gradient storage =
     (let gradient1 = (if length gradient \<noteq> n then replicate n 0 else gradient);
          gradient2 = map (\<lambda>g. 0) gradient1
      in map2 (+) gradient2 storage)"

text \<open>
  The single-threaded scatter of the term blocks into the dense Hessian, loop by loop
  from the innermost (\<open>j\<close>, \<open>i\<close>, \<open>var1\<close>, \<open>var0\<close>, the terms). The exception
  leaves the Hessian as far as it was written, so the loops return the matrix
  together with the error, if any.

  \<open>hessian->coeffRef(i + global_offset0, j + global_offset1) += part_hessian(i, j)\<close>
  is defined only inside both matrices. The loop bounds are the user dimensions of the
  arguments while the matrix has \<open>number_of_scalars\<close> rows and columns, so for an
  argument \<open>var1\<close> with a change of variables whose solver dimension is smaller than
  its user dimension the write can leave the matrix before the exception for that
  argument is reached. The model then stops with \<open>HessianAccessOutOfBounds\<close>.
\<close>

fun scatter_row ::
  "mat \<Rightarrow> nat \<Rightarrow> nat \<Rightarrow> nat \<Rightarrow> nat list \<Rightarrow> mat \<Rightarrow> error option \<times> mat" where
  "scatter_row part_hessian global_offset0 global_offset1 i [] H = (None, H)"
| "scatter_row part_hessian global_offset0 global_offset1 i (j # js) H =
     (if i < length part_hessian \<and> j < length (part_hessian ! i)
         \<and> i + global_offset0 < length H \<and> j + global_offset1 < length (H ! (i + global_offset0))
      then
        scatter_row part_hessian global_offset0 global_offset1 i js
          (H[i + global_offset0 :=
               (H ! (i + global_offset0))
                 [j + global_offset1 :=
                    H ! (i + global_offset0) ! (j + global_offset1) + part_hessian ! i ! j]])
      else (Some HessianAccessOutOfBounds, H))"

fun scatter_block ::
  "mat \<Rightarrow> nat \<Rightarrow> nat \<Rightarrow> nat list \<Rightarrow> nat list \<Rightarrow> mat \<Rightarrow> error option \<times> mat" where
  "scatter_block part_hessian global_offset0 global_offset1 [] js H = (None, H)"
| "scatter_block part_hessian global_offset0 global_offset1 (i # is) js H =
     (case scatter_row part_hessian global_offset0 global_offset1 i js H of
        (Some e, H') \<Rightarrow> (Some e, H')
      | (None, H') \<Rightarrow> scatter_block part_hessian global_offset0 global_offset1 is js H')"

fun scatter_blocks ::
  "'k Function \<Rightarrow> 'k AddedTerm \<Rightarrow> nat \<Rightarrow> nat list \<Rightarrow> mat \<Rightarrow> error option \<times> mat" where
  "scatter_blocks F tm var0 [] H = (None, H)"
| "scatter_blocks F tm var0 (var1 # rest) H =
     (if var0 < length (hessian tm) \<and> var1 < length (hessian tm ! var0)
      then
        (case scatter_block (hessian tm ! var0 ! var1)
                (global_index (the_variable F (user_variables tm ! var0)))
                (global_index (the_variable F (user_variables tm ! var1)))
                [0..<variable_dimension (added_term tm) var0]
                [0..<variable_dimension (added_term tm) var1] H of
           (Some e, H') \<Rightarrow> (Some e, H')
         | (None, H') \<Rightarrow> scatter_blocks F tm var0 rest H')
      else (Some HessianAccessOutOfBounds, H))"

fun scatter_term_dense ::
  "'k Function \<Rightarrow> 'k AddedTerm \<Rightarrow> nat list \<Rightarrow> mat \<Rightarrow> error option \<times> mat" where
  "scatter_term_dense F tm [] H = (None, H)"
| "scatter_term_dense F tm (var0 # rest) H =
     (if change_of_variables (the_variable F (user_variables tm ! var0)) \<noteq> None
      then (Some ChangeOfVariablesNotSupportedForHessians, H)
      else
        (case scatter_blocks F tm var0 [0..<number_of_variables (added_term tm)] H of
           (Some e, H') \<Rightarrow> (Some e, H')
         | (None, H') \<Rightarrow> scatter_term_dense F tm rest H'))"

fun scatter_dense ::
  "'k Function \<Rightarrow> 'k AddedTerm list \<Rightarrow> mat \<Rightarrow> error option \<times> mat" where
  "scatter_dense F [] H = (None, H)"
| "scatter_dense F (tm # rest) H =
     (case scatter_term_dense F tm [0..<number_of_variables (added_term tm)] H of
        (Some e, H') \<Rightarrow> (Some e, H')
      | (None, H') \<Rightarrow> scatter_dense F rest H')"

text \<open>
  \<open>double Function::evaluate(x, Eigen::VectorXd* gradient, Eigen::MatrixXd* hessian)\<close>.
  \<open>hessian\<close> is \<open>None\<close> for the null pointer. The result is the returned value or the
  exception, the object, and the two output arguments as the call leaves them. After an
  exception of a term the scratch of the object is not tracked further. On the states
  that \<open>add_variable\<close> and \<open>add_term\<close> produce, the gradient accumulation stays inside
  the scratch and the thread's gradient (a variable without change of variables has
  equal dimensions, and the buffers are sized by \<open>allocate_local_storage\<close>); the list
  operations of the model leave a list unchanged outside its range.
\<close>

definition evaluate_dense ::
  "vec \<Rightarrow> vec \<Rightarrow> mat option \<Rightarrow> 'k Function
     \<Rightarrow> (error + real) \<times> 'k Function \<times> vec \<times> mat option" where
  "evaluate_dense x gradient H F =
     (if H \<noteq> None \<and> \<not> hessian_is_enabled F then (Inl HessianNotEnabled, F, gradient, H)
      else
        let F1 = prepare_evaluation x F in
        case term_loop_dense (H \<noteq> None) F1 x (terms F1)
               (0, thread_gradient_scratch F1, thread_gradient_storage F1) of
          Inl e \<Rightarrow> (Inl e, F1, gradient, H)
        | Inr (val, scratch, storage, terms') \<Rightarrow>
            let F2 = F1\<lparr>terms := terms', thread_gradient_scratch := scratch,
                        thread_gradient_storage := storage\<rparr>;
                gradient' = assemble_gradient (number_of_scalars F2) gradient storage
            in (case H of
                  None \<Rightarrow> (Inr val, F2, gradient', None)
                | Some H0 \<Rightarrow>
                    (case scatter_dense F2 (terms F2)
                            (replicate (number_of_scalars F2)
                               (replicate (number_of_scalars F2) 0)) of
                       (Some e, H') \<Rightarrow> (Inl e, F2, gradient', Some H')
                     | (None, H') \<Rightarrow> (Inr val, F2, gradient', Some H'))))"

text \<open>\<open>double Function::evaluate(x, Eigen::VectorXd* gradient)\<close>: the null Hessian.\<close>

definition evaluate_gradient ::
  "vec \<Rightarrow> vec \<Rightarrow> 'k Function \<Rightarrow> (error + real) \<times> 'k Function \<times> vec \<times> mat option" where
  "evaluate_gradient x gradient F = evaluate_dense x gradient None F"

text \<open>
  What claim C10 means by "every term has been evaluated" and by "the fully assembled
  gradient", written from the specification's words (section 4.3, steps 4 and 5: every
  term is evaluated with the scratch, its per-argument gradient is accumulated into the
  full gradient at the argument's \<open>global_index\<close>, directly when there is no change
  of variables or through \<open>update_gradient\<close> otherwise, and its value is added to
  the sum). \<open>spec_scatter_argument\<close> gives the full gradient after one argument,
  entry by entry; \<open>terms_evaluated\<close> relates the state before the first term to the
  state after the last, going through every term of the list in order.
\<close>

definition spec_scatter_argument :: "AddedVariable \<Rightarrow> vec \<Rightarrow> vec \<Rightarrow> vec \<Rightarrow> vec" where
  "spec_scatter_argument v x block g =
     (case change_of_variables v of
        None \<Rightarrow>
          map (\<lambda>k. g ! k + (if global_index v \<le> k \<and> k < global_index v + user_dimension v
                             then block ! (k - global_index v) else 0))
              [0..<length g]
      | Some c \<Rightarrow>
          take (global_index v) g @
          update_gradient c (drop (global_index v) g) (drop (global_index v) x) block)"

definition spec_scatter_term ::
  "'k Function \<Rightarrow> vec \<Rightarrow> 'k AddedTerm \<Rightarrow> vec list \<Rightarrow> vec \<Rightarrow> vec" where
  "spec_scatter_term F x tm blocks g =
     foldl (\<lambda>g' var. spec_scatter_argument (the_variable F (user_variables tm ! var)) x
                        (blocks ! var) g')
           g [0..<length (user_variables tm)]"

inductive terms_evaluated ::
  "'k Function \<Rightarrow> vec \<Rightarrow> 'k AddedTerm list \<Rightarrow> real \<times> vec list \<times> vec
     \<Rightarrow> real \<times> vec list \<times> vec \<times> 'k AddedTerm list \<Rightarrow> bool"
  for F :: "'k Function" and x :: vec where
    no_term: "terms_evaluated F x [] (val, scratch, g) (val, scratch, g, [])"
  | one_term:
      "term_evaluate_hessian (added_term tm) (temp_variables F tm) scratch (hessian tm)
         = Inr (v, scratch', blocks)
       \<Longrightarrow> terms_evaluated F x rest (val + v, scratch', spec_scatter_term F x tm scratch' g)
             (val', scratch'', g', rest')
       \<Longrightarrow> terms_evaluated F x (tm # rest) (val, scratch, g)
             (val', scratch'', g', tm\<lparr>hessian := blocks\<rparr> # rest')"

code_pred (modes: i \<Rightarrow> i \<Rightarrow> i \<Rightarrow> i \<Rightarrow> o \<Rightarrow> bool) terms_evaluated .

section \<open>Function: sparse Hessian\<close>

text \<open>
  An \<open>Eigen::Triplet\<close> is a row, a column and a value. An \<open>Eigen::SparseMatrix\<close> is
  its size and its stored coefficients, one per stored position;
  \<open>setFromTriplets\<close> discards the old coefficients and stores one coefficient for
  every position that occurs in the triplets, the sum of the values given for it. The
  stored positions are the structural nonzeros. The casts \<open>static_cast<int>\<close> of the
  indices are the identity below \<open>2\<^sup>3\<^sup>1\<close> and not modelled.
\<close>

type_synonym triplet = "nat \<times> nat \<times> real"

record SparseMatrix =
  sparse_rows :: nat
  sparse_cols :: nat
  coefficients :: "((nat \<times> nat) \<times> real) list"

fun add_triplet :: "triplet \<Rightarrow> ((nat \<times> nat) \<times> real) list \<Rightarrow> ((nat \<times> nat) \<times> real) list" where
  "add_triplet (r, c, v) [] = [((r, c), v)]"
| "add_triplet (r, c, v) ((position, w) # stored) =
     (if position = (r, c) then (position, w + v) # stored
      else (position, w) # add_triplet (r, c, v) stored)"

definition setFromTriplets :: "triplet list \<Rightarrow> SparseMatrix \<Rightarrow> SparseMatrix" where
  "setFromTriplets indices M = M\<lparr>coefficients := fold add_triplet indices []\<rparr>"

definition structural_nonzeros :: "SparseMatrix \<Rightarrow> (nat \<times> nat) set" where
  "structural_nonzeros M = set (map fst (coefficients M))"

text \<open>
  The five nested loops that both \<open>create_sparse_hessian\<close> and the sparse
  \<open>evaluate\<close> run, each with its own value for the triplet: \<open>1.0\<close> in the first,
  \<open>part_hessian(i, j)\<close> in the second. \<open>push_back\<close> in loop order is concatenation.
\<close>

definition pattern_triplets :: "'k Function \<Rightarrow> triplet list" where
  "pattern_triplets F =
     concat (map (\<lambda>tm.
       concat (map (\<lambda>var0.
         concat (map (\<lambda>var1.
           concat (map (\<lambda>i.
             map (\<lambda>j. (i + global_index (the_variable F (user_variables tm ! var0)),
                        j + global_index (the_variable F (user_variables tm ! var1)),
                        1))
                 [0..<variable_dimension (added_term tm) var1])
             [0..<variable_dimension (added_term tm) var0]))
           [0..<number_of_variables (added_term tm)]))
         [0..<number_of_variables (added_term tm)]))
       (terms F))"

definition hessian_triplets :: "'k Function \<Rightarrow> triplet list" where
  "hessian_triplets F =
     concat (map (\<lambda>tm.
       concat (map (\<lambda>var0.
         concat (map (\<lambda>var1.
           concat (map (\<lambda>i.
             map (\<lambda>j. (i + global_index (the_variable F (user_variables tm ! var0)),
                        j + global_index (the_variable F (user_variables tm ! var1)),
                        hessian tm ! var0 ! var1 ! i ! j))
                 [0..<variable_dimension (added_term tm) var1])
             [0..<variable_dimension (added_term tm) var0]))
           [0..<number_of_variables (added_term tm)]))
         [0..<number_of_variables (added_term tm)]))
       (terms F))"

text \<open>\<open>void Function::create_sparse_hessian(Eigen::SparseMatrix<double>* H) const\<close>\<close>

definition create_sparse_hessian ::
  "SparseMatrix \<Rightarrow> 'k Function \<Rightarrow> 'k Function \<times> SparseMatrix" where
  "create_sparse_hessian H F =
     (let indices = pattern_triplets F
      in (F\<lparr>number_of_hessian_elements := length indices\<rparr>,
          setFromTriplets indices
            (H\<lparr>sparse_rows := number_of_scalars F, sparse_cols := number_of_scalars F\<rparr>)))"

text \<open>
  The position of a triplet, and the positions the five loops visit for one term,
  given the offset of each argument.
\<close>

definition triplet_position :: "triplet \<Rightarrow> nat \<times> nat" where
  "triplet_position t = (fst t, fst (snd t))"

definition term_positions :: "('k \<Rightarrow> nat) \<Rightarrow> Term \<Rightarrow> 'k list \<Rightarrow> (nat \<times> nat) list" where
  "term_positions offset t arguments =
     concat (map (\<lambda>var0.
       concat (map (\<lambda>var1.
         concat (map (\<lambda>i.
           map (\<lambda>j. (i + offset (arguments ! var0), j + offset (arguments ! var1)))
               [0..<variable_dimension t var1])
           [0..<variable_dimension t var0]))
         [0..<number_of_variables t]))
       [0..<number_of_variables t])"

text \<open>
  The gradient accumulation of the sparse \<open>evaluate\<close>: it throws at the first
  argument with a change of variables, inside the loop over the terms.
\<close>

fun accumulate_gradient_sparse ::
  "'k Function \<Rightarrow> 'k AddedTerm \<Rightarrow> vec list \<Rightarrow> nat list \<Rightarrow> vec \<Rightarrow> error + vec" where
  "accumulate_gradient_sparse F tm scratch [] storage = Inr storage"
| "accumulate_gradient_sparse F tm scratch (var # rest) storage =
     (let v = the_variable F (user_variables tm ! var) in
      if change_of_variables v \<noteq> None then Inl ChangeOfVariablesNotSupportedForSparseHessian
      else accumulate_gradient_sparse F tm scratch rest
             (add_gradient_block (global_index v) (user_dimension v) (scratch ! var) storage))"

fun term_loop_sparse ::
  "'k Function \<Rightarrow> 'k AddedTerm list \<Rightarrow> real \<times> vec list \<times> vec
     \<Rightarrow> error + real \<times> vec list \<times> vec \<times> 'k AddedTerm list" where
  "term_loop_sparse F [] (val, scratch, storage) = Inr (val, scratch, storage, [])"
| "term_loop_sparse F (tm # rest) (val, scratch, storage) =
     (case term_evaluate_hessian (added_term tm) (temp_variables F tm) scratch (hessian tm) of
        Inl message \<Rightarrow> Inl (TermFailure message)
      | Inr (v, scratch', blocks) \<Rightarrow>
          (case accumulate_gradient_sparse F tm scratch' [0..<length (user_variables tm)] storage of
             Inl e \<Rightarrow> Inl e
           | Inr storage' \<Rightarrow>
               (case term_loop_sparse F rest (val + v, scratch', storage') of
                  Inl e \<Rightarrow> Inl e
                | Inr (val', scratch'', storage'', rest') \<Rightarrow>
                    Inr (val', scratch'', storage'', tm\<lparr>hessian := blocks\<rparr> # rest'))))"

text \<open>
  \<open>double Function::evaluate(x, Eigen::VectorXd* gradient, Eigen::SparseMatrix<double>* hessian)\<close>.
  The matrix is not resized here: the caller passes the one \<open>create_sparse_hessian\<close>
  sized.
\<close>

definition evaluate_sparse ::
  "vec \<Rightarrow> vec \<Rightarrow> SparseMatrix option \<Rightarrow> 'k Function
     \<Rightarrow> (error + real) \<times> 'k Function \<times> vec \<times> SparseMatrix option" where
  "evaluate_sparse x gradient H F =
     (case H of
        None \<Rightarrow> (Inl HessianNull, F, gradient, H)
      | Some H0 \<Rightarrow>
          if \<not> hessian_is_enabled F then (Inl HessianNotEnabled, F, gradient, H)
          else
            let F1 = (prepare_evaluation x F)\<lparr>number_of_hessian_elements := 0\<rparr> in
            (case term_loop_sparse F1 (terms F1)
                    (0, thread_gradient_scratch F1, thread_gradient_storage F1) of
               Inl e \<Rightarrow> (Inl e, F1, gradient, H)
             | Inr (val, scratch, storage, terms') \<Rightarrow>
                 let F2 = F1\<lparr>terms := terms', thread_gradient_scratch := scratch,
                             thread_gradient_storage := storage\<rparr>;
                     gradient' = assemble_gradient (number_of_scalars F2) gradient storage;
                     indices = hessian_triplets F2
                 in (Inr val, F2\<lparr>number_of_hessian_elements := length indices\<rparr>, gradient',
                     Some (setFromTriplets indices H0))))"

text \<open>
  A variable with a change of variables (the identity on one scalar), and a
  \<open>Function\<close> with one such variable at address 0 and the term \<open>c(x) = x - 2\<close> on it.
\<close>

definition example_change_of_variables :: ChangeOfVariables where
  "example_change_of_variables =
     \<lparr> x_dimension = 1, t_dimension = 1,
       t_to_x = (\<lambda>t. [t ! 0]), x_to_t = (\<lambda>x. [x ! 0]),
       update_gradient = (\<lambda>g t g_user. (g ! 0 + g_user ! 0) # tl g) \<rparr>"

definition example_steps_cov :: "nat build_step list" where
  "example_steps_cov =
     [AddVariable 0 1 (Some example_change_of_variables), AddTerm example_term [0]]"

definition example_steps_plain :: "nat build_step list" where
  "example_steps_plain = [AddVariable 0 1 None, AddTerm example_term [0]]"

definition example_function_cov :: "nat Function" where
  "example_function_cov =
     Function_new
       \<lparr>variables :=
          [(0, \<lparr> user_dimension = 1, solver_dimension = 1, global_index = 0,
                 change_of_variables = Some example_change_of_variables, temp_space = [0] \<rparr>)],
        terms := [\<lparr> added_term = example_term, user_variables = [0], hessian = [[[[0]]]] \<rparr>],
        number_of_scalars := 1\<rparr>"

definition example_function_plain :: "nat Function" where
  "example_function_plain =
     Function_new
       \<lparr>variables :=
          [(0, \<lparr> user_dimension = 1, solver_dimension = 1, global_index = 0,
                 change_of_variables = None, temp_space = [0] \<rparr>)],
        terms := [\<lparr> added_term = example_term, user_variables = [0], hessian = [[[[0]]]] \<rparr>],
        number_of_scalars := 1\<rparr>"

text \<open>
  Two scalar variables, the one at address 0 plain and the one at address 1 with the
  change of variables, the term \<open>(x - 3)\<^sup>2\<close> on the first and the term \<open>x - 2\<close> on
  the second.
\<close>

definition example_steps_mixed :: "nat build_step list" where
  "example_steps_mixed =
     [AddVariable 0 1 None, AddVariable 1 1 (Some example_change_of_variables),
      AddTerm quadratic_term [0], AddTerm example_term [1]]"

definition example_function_mixed :: "nat Function" where
  "example_function_mixed =
     Function_new
       \<lparr>variables :=
          [(0, \<lparr> user_dimension = 1, solver_dimension = 1, global_index = 0,
                 change_of_variables = None, temp_space = [0] \<rparr>),
           (1, \<lparr> user_dimension = 1, solver_dimension = 1, global_index = 1,
                 change_of_variables = Some example_change_of_variables, temp_space = [0] \<rparr>)],
        terms := [\<lparr> added_term = quadratic_term, user_variables = [0], hessian = [[[[0]]]] \<rparr>,
                  \<lparr> added_term = example_term, user_variables = [1], hessian = [[[[0]]]] \<rparr>],
        number_of_scalars := 2\<rparr>"

text \<open>
  A change of variables from one solver scalar \<open>t\<close> to the two user scalars
  \<open>(cos t, sin t)\<close>, and a term \<open>x + y\<^sub>0 + y\<^sub>1\<close> of a plain scalar \<open>x\<close> at address 0
  and such a variable \<open>y\<close> at address 1.
\<close>

definition circle_change_of_variables :: ChangeOfVariables where
  "circle_change_of_variables =
     \<lparr> x_dimension = 2, t_dimension = 1,
       t_to_x = (\<lambda>t. [cos (t ! 0), sin (t ! 0)]), x_to_t = (\<lambda>x. [arctan (x ! 1 / x ! 0)]),
       update_gradient =
         (\<lambda>g t g_user. (g ! 0 - sin (t ! 0) * g_user ! 0 + cos (t ! 0) * g_user ! 1) # tl g) \<rparr>"

definition sum_term :: Term where
  "sum_term =
     \<lparr> number_of_variables = 2,
       variable_dimension = (\<lambda>i. if i = 0 then 1 else 2),
       term_evaluate = (\<lambda>vs. Inr (Fin (vs ! 0 ! 0 + vs ! 1 ! 0 + vs ! 1 ! 1))),
       term_evaluate_gradient =
         (\<lambda>vs gr. Inr (vs ! 0 ! 0 + vs ! 1 ! 0 + vs ! 1 ! 1, [[1, 0], [1, 1]])),
       term_evaluate_hessian =
         (\<lambda>vs gr hs. Inr (vs ! 0 ! 0 + vs ! 1 ! 0 + vs ! 1 ! 1, [[1, 0], [1, 1]],
                         [[[[0]], [[0, 0]]], [[[0], [0]], [[0, 0], [0, 0]]]])) \<rparr>"

definition example_steps_circle :: "nat build_step list" where
  "example_steps_circle =
     [AddVariable 0 1 None, AddVariable 1 2 (Some circle_change_of_variables),
      AddTerm sum_term [0, 1]]"

definition example_function_circle :: "nat Function" where
  "example_function_circle =
     Function_new
       \<lparr>variables :=
          [(0, \<lparr> user_dimension = 1, solver_dimension = 1, global_index = 0,
                 change_of_variables = None, temp_space = [0] \<rparr>),
           (1, \<lparr> user_dimension = 2, solver_dimension = 1, global_index = 1,
                 change_of_variables = Some circle_change_of_variables, temp_space = [0, 0] \<rparr>)],
        terms := [\<lparr> added_term = sum_term, user_variables = [0, 1],
                    hessian = [[[[0]], [[0, 0]]], [[[0], [0]], [[0, 0], [0, 0]]]] \<rparr>],
        number_of_scalars := 2\<rparr>"

definition example_sparse_matrix :: SparseMatrix where
  "example_sparse_matrix = \<lparr> sparse_rows = 1, sparse_cols = 1, coefficients = [] \<rparr>"

text \<open>
  An example: two variables of dimensions 2 and 3 at the addresses 0 and 1, then a
  third of dimension 1 at address 2 and the term \<open>c(x) = x - 2\<close> on it.
\<close>

definition example_steps :: "nat build_step list" where
  "example_steps = [AddVariable 0 2 None, AddVariable 1 3 None]"

definition example_more_steps :: "nat build_step list" where
  "example_more_steps = [AddVariable 2 1 None, AddTerm example_term [2]]"

definition example_variables :: "(nat \<times> AddedVariable) list" where
  "example_variables =
     [(0, \<lparr> user_dimension = 2, solver_dimension = 2, global_index = 0,
            change_of_variables = None, temp_space = [0, 0] \<rparr>),
      (1, \<lparr> user_dimension = 3, solver_dimension = 3, global_index = 2,
            change_of_variables = None, temp_space = [0, 0, 0] \<rparr>)]"

definition example_function :: "nat Function" where
  "example_function = Function_new\<lparr>variables := example_variables, number_of_scalars := 5\<rparr>"

definition example_function_more :: "nat Function" where
  "example_function_more =
     Function_new
       \<lparr>variables := example_variables @
          [(2, \<lparr> user_dimension = 1, solver_dimension = 1, global_index = 5,
                 change_of_variables = None, temp_space = [0] \<rparr>)],
        terms := [\<lparr> added_term = example_term, user_variables = [2], hessian = [[[[0]]]] \<rparr>],
        number_of_scalars := 6\<rparr>"

section \<open>ConstrainedFunction\<close>

text \<open>
  \<open>class Constraint : public Function\<close> adds two members to a \<open>Function\<close>.
  \<open>constraints\<close> is a \<open>std::map\<close> from the name; the association list holds its
  entries in the order in which the map is traversed. The Phi terms of
  \<open>augmented_lagrangian\<close> hold pointers to \<open>mu\<close> and to the \<open>lambda\<close> of their
  constraint; the record holds them at some contents of these cells, and whoever
  evaluates the augmented Lagrangian is given the whole object. The methods that build
  a \<open>ConstrainedFunction\<close> (\<open>add_term\<close>, \<open>add_constraint_term\<close>) call an overload
  of \<open>Function::add_term\<close> that function.cpp does not define; they are not modelled,
  and the statements below hold for any contents of the object.
\<close>

record 'k Constraint = "'k Function" +
  lambda :: double
  cached_value :: double

record 'k Implementation =
  mu :: real
  augmented_lagrangian :: "'k Function"
  objective :: "'k Function"
  constraints :: "(string \<times> 'k Constraint) list"

record 'k ConstrainedFunction =
  impl :: "'k Implementation"
  function_improvement_tolerance :: real
  dual_change_tolerance :: real
  max_number_of_iterations :: int

text \<open>
  \<open>bool ConstrainedFunction::is_feasible() const\<close>; \<open>1e-12\<close> is \<open>1 / 10\<^sup>1\<^sup>2\<close>.
  \<open>user\<close> is the user's memory, which \<open>Function::evaluate()\<close> reads. The test
  \<open>c_x > 1e-12\<close> is \<open>1e-12 < c_x\<close> on doubles.
\<close>

fun is_feasible_loop :: "('k \<Rightarrow> vec) \<Rightarrow> (string \<times> 'k Constraint) list \<Rightarrow> error + bool" where
  "is_feasible_loop user [] = Inr True"
| "is_feasible_loop user ((name, c) # rest) =
     (case evaluate_user user c of
        Inl e \<Rightarrow> Inl e
      | Inr c_x \<Rightarrow>
          if dless (Fin (1 / 10 ^ 12)) c_x then Inr False else is_feasible_loop user rest)"

definition is_feasible :: "('k \<Rightarrow> vec) \<Rightarrow> 'k ConstrainedFunction \<Rightarrow> error + bool" where
  "is_feasible user cf = is_feasible_loop user (constraints (impl cf))"

text \<open>
  Modelled from the spec: the enumeration \<open>SolverResults::exit_condition\<close> is declared
  in a header that is not among the sources; the specification (section 4.6) names
  these values. The results record has at least this field.
\<close>

datatype exit_condition =
    INTERNAL_ERROR
  | FUNCTION_TOLERANCE
  | GRADIENT_TOLERANCE
  | NO_CONVERGENCE
  | ARGUMENT_TOLERANCE

record SolverResults =
  exit_condition :: exit_condition

text \<open>
  Modelled from the spec: \<open>Function::get_number_of_variables\<close> is defined in the
  missing header; the specification has \<open>solve\<close> return at once when "the augmented
  Lagrangian has zero variables".
\<close>

definition get_number_of_variables :: "('k, 'a) Function_scheme \<Rightarrow> nat" where
  "get_number_of_variables F = length (variables F)"

text \<open>
  The inner solver is external. \<open>solver.solve(augmented_lagrangian, results)\<close> sees
  the augmented Lagrangian, whose Phi terms read \<open>mu\<close> and every \<open>lambda\<close> through
  pointers, and the user's memory, where the minimisation starts; it writes the user's
  memory and fills in \<open>*results\<close>. So a solver is any function from the
  implementation object and the user's memory to the new memory and the results.
\<close>

type_synonym 'k Solver = "'k Implementation \<Rightarrow> ('k \<Rightarrow> vec) \<Rightarrow> ('k \<Rightarrow> vec) \<times> SolverResults"

text \<open>
  What \<open>solve\<close> leaves behind: the object, the user's memory and \<open>*results\<close>, and
  (a ghost counter) the number of calls of \<open>solver.solve\<close>. The loop has in addition
  its local variables; \<open>f_value\<close> is the local \<open>f\<close>. The locals that the body
  assigns before it reads them (\<open>f\<close>, \<open>infeasibility\<close>, \<open>max_violation\<close>) start
  with the values the body gives them first.
\<close>

record 'k solve_state =
  solve_impl :: "'k Implementation"
  solve_user :: "'k \<Rightarrow> vec"
  results :: SolverResults
  solver_calls :: nat

record 'k solve_locals = "'k solve_state" +
  nu :: real
  f_prev :: double
  f_value :: double
  infeasibility :: double
  max_violation :: double

text \<open>
  The first loop over the constraints ("Update all lambdas" in the source, although it
  only evaluates and caches).
\<close>

fun evaluate_constraints ::
  "('k \<Rightarrow> vec) \<Rightarrow> (string \<times> 'k Constraint) list \<Rightarrow> double \<times> double
     \<Rightarrow> error + (string \<times> 'k Constraint) list \<times> double \<times> double" where
  "evaluate_constraints user [] (infeas, viol) = Inr ([], infeas, viol)"
| "evaluate_constraints user ((name, c) # rest) (infeas, viol) =
     (case evaluate_user user c of
        Inl e \<Rightarrow> Inl e
      | Inr c_x \<Rightarrow>
          (case evaluate_constraints user rest
                  (dmax infeas (dmul c_x (lambda c)), dmax viol c_x) of
             Inl e \<Rightarrow> Inl e
           | Inr (rest', infeas', viol') \<Rightarrow>
               Inr ((name, c\<lparr>cached_value := c_x\<rparr>) # rest', infeas', viol')))"

text \<open>
  The dual update of one constraint and the loop over all of them, which also tracks
  \<open>max_change\<close> and \<open>max_lambda\<close>.
\<close>

definition update_lambda :: "real \<Rightarrow> 'k Constraint \<Rightarrow> 'k Constraint" where
  "update_lambda \<mu> c =
     (let c_x = cached_value c in
      if dle (dadd c_x (ddiv (lambda c) (Fin \<mu>))) (Fin 0) then c\<lparr>lambda := Fin 0\<rparr>
      else c\<lparr>lambda := dadd (lambda c) (dmul (Fin \<mu>) c_x)\<rparr>)"

fun update_duals ::
  "real \<Rightarrow> (string \<times> 'k Constraint) list \<Rightarrow> double \<times> double
     \<Rightarrow> (string \<times> 'k Constraint) list \<times> double \<times> double" where
  "update_duals \<mu> [] (max_change, max_lambda) = ([], max_change, max_lambda)"
| "update_duals \<mu> ((name, c) # rest) (max_change, max_lambda) =
     (case update_duals \<mu> rest
             (dmax max_change (dabs (dsub (lambda c) (lambda (update_lambda \<mu> c)))),
              dmax max_lambda (dabs (lambda (update_lambda \<mu> c)))) of
        (rest', max_change', max_lambda') \<Rightarrow>
          ((name, update_lambda \<mu> c) # rest', max_change', max_lambda'))"

text \<open>The two stopping tests, with the divisions as \<open>double\<close> computes them.\<close>

definition function_tolerance_test :: "double \<Rightarrow> double \<Rightarrow> real \<Rightarrow> bool" where
  "function_tolerance_test f previous tolerance =
     dless (ddiv (dabs (dsub f previous)) (dadd (dabs f) (Fin tolerance))) (Fin tolerance)"

definition dual_tolerance_test :: "double \<Rightarrow> double \<Rightarrow> real \<Rightarrow> double \<Rightarrow> bool" where
  "dual_tolerance_test max_change max_lambda tolerance viol =
     (dless (ddiv max_change (dadd max_lambda (Fin tolerance))) (Fin tolerance)
      \<and> dless viol (Fin (1 / 10 ^ 8)))"

text \<open>
  One pass through the body of \<open>while (true)\<close>, from the call of the solver to the
  end of the \<open>if\<close>/\<open>else\<close> on \<open>max_violation <= nu\<close>. The result says whether a
  \<open>break\<close> was taken and with which exit condition. The calls of \<open>log_function\<close>
  are left out; \<open>infeasibility\<close> is only ever logged. \<open>std::pow(mu, 0.9)\<close> is
  \<open>mu powr (9/10)\<close>: \<open>mu\<close> is 10 times a power of 100, never zero or negative.
  An exception of a term leaves \<open>solve\<close> and is returned as the error.
\<close>

definition solve_iteration ::
  "'k Solver \<Rightarrow> 'k ConstrainedFunction \<Rightarrow> 'k solve_locals
     \<Rightarrow> error + exit_condition option \<times> 'k solve_locals" where
  "solve_iteration solver cf st =
     (case solver (solve_impl st) (solve_user st) of
        (user', results') \<Rightarrow>
          (case evaluate_user user' (objective (solve_impl st)) of
             Inl e \<Rightarrow> Inl e
           | Inr f \<Rightarrow>
               (case evaluate_constraints user' (constraints (solve_impl st)) (MInf, Fin 0) of
                  Inl e \<Rightarrow> Inl e
                | Inr (cs, infeas, viol) \<Rightarrow>
                    (let st1 = st\<lparr>solve_impl := (solve_impl st)\<lparr>constraints := cs\<rparr>,
                                  solve_user := user', results := results',
                                  solver_calls := solver_calls st + 1,
                                  f_value := f, infeasibility := infeas, max_violation := viol\<rparr>
                     in
                     if function_tolerance_test f (f_prev st1) (function_improvement_tolerance cf)
                     then Inr (Some FUNCTION_TOLERANCE,
                               st1\<lparr>results := results'\<lparr>exit_condition := FUNCTION_TOLERANCE\<rparr>\<rparr>)
                     else if dle viol (Fin (nu st1)) then
                       (case update_duals (mu (solve_impl st1)) cs (Fin 0, Fin 0) of
                          (cs', max_change, max_lambda) \<Rightarrow>
                            if dual_tolerance_test max_change max_lambda
                                 (dual_change_tolerance cf) viol
                            then Inr (Some GRADIENT_TOLERANCE,
                                      st1\<lparr>solve_impl := (solve_impl st1)\<lparr>constraints := cs'\<rparr>,
                                          results := results'\<lparr>exit_condition := GRADIENT_TOLERANCE\<rparr>\<rparr>)
                            else Inr (None,
                                      st1\<lparr>solve_impl := (solve_impl st1)\<lparr>constraints := cs'\<rparr>,
                                          nu := nu st1 / (mu (solve_impl st1) powr (9 / 10))\<rparr>))
                     else
                       Inr (None,
                            st1\<lparr>solve_impl := (solve_impl st1)\<lparr>mu := mu (solve_impl st1) * 100\<rparr>,
                                nu := 1 / ((mu (solve_impl st1) * 100) powr (1 / 10))\<rparr>)))))"

text \<open>
  The loop: \<open>iterations++\<close>, the test against \<open>max_number_of_iterations\<close>, and
  \<open>f_prev = f\<close>. It ends because \<open>iterations\<close> grows by one in every round and the
  loop leaves as soon as it reaches the bound.
\<close>

function solve_loop ::
  "'k Solver \<Rightarrow> 'k ConstrainedFunction \<Rightarrow> int \<Rightarrow> 'k solve_locals \<Rightarrow> error + 'k solve_locals" where
  "solve_loop solver cf iterations st =
     (case solve_iteration solver cf st of
        Inl e \<Rightarrow> Inl e
      | Inr (Some ec, st') \<Rightarrow> Inr st'
      | Inr (None, st') \<Rightarrow>
          if iterations + 1 \<ge> max_number_of_iterations cf
          then Inr (st'\<lparr>results := (results st')\<lparr>exit_condition := NO_CONVERGENCE\<rparr>\<rparr>)
          else solve_loop solver cf (iterations + 1) (st'\<lparr>f_prev := f_value st'\<rparr>))"
  by pat_completeness auto
termination
  by (relation "measure (\<lambda>(solver, cf, iterations, st).
                   nat (max_number_of_iterations cf - iterations))") auto

text \<open>
  \<open>void ConstrainedFunction::solve(const Solver& solver, SolverResults* results)\<close>.
  \<open>user\<close> and \<open>results0\<close> are the user's memory and \<open>*results\<close> at the call.
\<close>

definition solve ::
  "'k Solver \<Rightarrow> 'k ConstrainedFunction \<Rightarrow> ('k \<Rightarrow> vec) \<Rightarrow> SolverResults
     \<Rightarrow> error + 'k solve_state" where
  "solve solver cf user results0 =
     (if get_number_of_variables (augmented_lagrangian (impl cf)) = 0
      then Inr \<lparr> solve_impl = impl cf, solve_user = user,
                 results = results0\<lparr>exit_condition := FUNCTION_TOLERANCE\<rparr>,
                 solver_calls = 0 \<rparr>
      else
        (case solve_loop solver cf 0
                \<lparr> solve_impl = (impl cf)\<lparr>mu := 10\<rparr>, solve_user = user,
                  results = results0\<lparr>exit_condition := INTERNAL_ERROR\<rparr>,
                  solver_calls = 0,
                  nu = 1 / (10 powr (1 / 10)), f_prev = NaN, f_value = Fin 0,
                  infeasibility = MInf, max_violation = Fin 0 \<rparr> of
           Inl e \<Rightarrow> Inl e
         | Inr st \<Rightarrow> Inr (solve_state.truncate st)))"

text \<open>
  A solver that writes a given exit condition instead of its own; used to say that the
  outer loop does not depend on what the solver reports.
\<close>

definition with_exit_condition :: "exit_condition \<Rightarrow> 'k Solver \<Rightarrow> 'k Solver" where
  "with_exit_condition ec solver =
     (\<lambda>implementation user.
        case solver implementation user of
          (user', results') \<Rightarrow> (user', results'\<lparr>exit_condition := ec\<rparr>))"

text \<open>
  The dual update as the amended claim C2 states it, for one constraint before (\<open>c\<close>)
  and after (\<open>c'\<close>) the update and with \<open>s = c + lambda/mu\<close> as \<open>double\<close> computes
  it: the new multiplier is \<open>lambda + mu c\<close> if \<open>s > 0\<close>, it is 0 if \<open>s \<le> 0\<close>, and
  it is \<open>lambda + mu c\<close> also when neither comparison holds, which is when \<open>s\<close> is
  NaN.
\<close>

definition dual_update_spec :: "real \<Rightarrow> 'k Constraint \<Rightarrow> 'k Constraint \<Rightarrow> bool" where
  "dual_update_spec \<mu> c c' \<longleftrightarrow>
     (dless (Fin 0) (dadd (cached_value c) (ddiv (lambda c) (Fin \<mu>))) \<longrightarrow>
        lambda c' = dadd (lambda c) (dmul (Fin \<mu>) (cached_value c)))
     \<and> (dle (dadd (cached_value c) (ddiv (lambda c) (Fin \<mu>))) (Fin 0) \<longrightarrow>
        lambda c' = Fin 0)
     \<and> (dadd (cached_value c) (ddiv (lambda c) (Fin \<mu>)) = NaN \<longrightarrow>
        lambda c' = dadd (lambda c) (dmul (Fin \<mu>) (cached_value c)))"

text \<open>
  An example in the manner of the specification's scenarios: minimise \<open>(x - 3)\<^sup>2\<close>
  subject to \<open>x - 2 \<le> 0\<close>, with one scalar variable at address 0. \<open>example_constraint l c\<close>
  is the constraint object holding the multiplier \<open>l\<close> and the cached value \<open>c\<close>.
  \<open>stuck_solver\<close> always leaves \<open>x = 5\<close>; \<open>failing_solver\<close> moves \<open>x\<close> one further
  away at each call and reports \<open>INTERNAL_ERROR\<close>. \<open>example_locals\<close> names the state
  of the loop in this example by the values that change.
\<close>

definition example_variable :: AddedVariable where
  "example_variable =
     \<lparr> user_dimension = 1, solver_dimension = 1, global_index = 0,
       change_of_variables = None, temp_space = [0] \<rparr>"

definition example_objective :: "nat Function" where
  "example_objective =
     Function_new
       \<lparr>variables := [(0, example_variable)],
        terms := [\<lparr> added_term = quadratic_term, user_variables = [0], hessian = [[[[0]]]] \<rparr>],
        number_of_scalars := 1\<rparr>"

definition example_constraint :: "double \<Rightarrow> double \<Rightarrow> nat Constraint" where
  "example_constraint l c =
     \<lparr> variables = [(0, example_variable)],
       terms = [\<lparr> added_term = example_term, user_variables = [0], hessian = [[[[0]]]] \<rparr>],
       number_of_scalars = 1, hessian_is_enabled = True, number_of_hessian_elements = 0,
       local_storage_allocated = False, thread_gradient_scratch = [],
       thread_gradient_storage = [],
       lambda = l, cached_value = c \<rparr>"

definition example_implementation :: "nat Implementation" where
  "example_implementation =
     \<lparr> mu = 10,
       augmented_lagrangian =
         example_objective
           \<lparr>terms := terms example_objective @
              [\<lparr> added_term = Phi example_term 0 10, user_variables = [0], hessian = [[[[0]]]] \<rparr>]\<rparr>,
       objective = example_objective,
       constraints = [(''x at most 2'', example_constraint (Fin 0) (Fin 0))] \<rparr>"

definition example_constrained_function :: "nat ConstrainedFunction" where
  "example_constrained_function =
     \<lparr> impl = example_implementation,
       function_improvement_tolerance = 1 / 10 ^ 9,
       dual_change_tolerance = 1 / 10 ^ 9,
       max_number_of_iterations = 3 \<rparr>"

definition stuck_solver :: "nat Solver" where
  "stuck_solver = (\<lambda>implementation user. (user(0 := [5]), \<lparr> exit_condition = GRADIENT_TOLERANCE \<rparr>))"

definition failing_solver :: "nat Solver" where
  "failing_solver =
     (\<lambda>implementation user. (user(0 := [user 0 ! 0 + 1]), \<lparr> exit_condition = INTERNAL_ERROR \<rparr>))"

definition example_user :: "nat \<Rightarrow> vec" where
  "example_user = (\<lambda>variable. [4])"

text \<open>
  A constraint whose value is not always a number: \<open>sqrt(x) - 2 \<le> 0\<close>, which is NaN
  for negative \<open>x\<close> as \<open>std::sqrt\<close> is. The term implements no derivatives.
\<close>

definition root_term :: Term where
  "root_term =
     \<lparr> number_of_variables = 1,
       variable_dimension = (\<lambda>i. 1),
       term_evaluate = (\<lambda>vs. Inr (if vs ! 0 ! 0 < 0 then NaN else Fin (sqrt (vs ! 0 ! 0) - 2))),
       term_evaluate_gradient = (\<lambda>vs gr. Inl ''not supported''),
       term_evaluate_hessian = (\<lambda>vs gr hs. Inl ''not supported'') \<rparr>"

definition root_constraint :: "nat Constraint" where
  "root_constraint =
     \<lparr> variables = [(0, example_variable)],
       terms = [\<lparr> added_term = root_term, user_variables = [0], hessian = [[[[0]]]] \<rparr>],
       number_of_scalars = 1, hessian_is_enabled = True, number_of_hessian_elements = 0,
       local_storage_allocated = False, thread_gradient_scratch = [],
       thread_gradient_storage = [],
       lambda = Fin 0, cached_value = Fin 0 \<rparr>"

definition root_constrained_function :: "nat ConstrainedFunction" where
  "root_constrained_function =
     example_constrained_function
       \<lparr>impl := example_implementation
                  \<lparr>constraints := [(''root of x at most 2'', root_constraint)]\<rparr>\<rparr>"

text \<open>A solver that always leaves \<open>x = -1\<close>, where that constraint is NaN.\<close>

definition negative_solver :: "nat Solver" where
  "negative_solver =
     (\<lambda>implementation user. (user(0 := [- 1]), \<lparr> exit_condition = GRADIENT_TOLERANCE \<rparr>))"

text \<open>
  The state in which the first pass of the loop ends in that example, with that solver
  and \<open>x = 4\<close> at the start.
\<close>

definition root_final :: "nat solve_locals" where
  "root_final =
     \<lparr> solve_impl = (impl root_constrained_function)
         \<lparr>mu := 10,
          constraints := [(''root of x at most 2'',
                           root_constraint\<lparr>lambda := NaN, cached_value := NaN\<rparr>)]\<rparr>,
       solve_user = example_user(0 := [- 1]),
       results = \<lparr>exit_condition = GRADIENT_TOLERANCE\<rparr>, solver_calls = 1,
       nu = 1 / (10 powr (1 / 10)), f_prev = NaN, f_value = Fin 16,
       infeasibility = MInf, max_violation = Fin 0 \<rparr>"

definition example_locals ::
  "real \<Rightarrow> double \<Rightarrow> double \<Rightarrow> real \<Rightarrow> SolverResults \<Rightarrow> nat \<Rightarrow> real \<Rightarrow> double \<Rightarrow> double
     \<Rightarrow> double \<Rightarrow> double \<Rightarrow> nat solve_locals" where
  "example_locals m l c x r calls n fp f infeas viol =
     \<lparr> solve_impl = example_implementation
         \<lparr>mu := m, constraints := [(''x at most 2'', example_constraint l c)]\<rparr>,
       solve_user = example_user(0 := [x]), results = r, solver_calls = calls,
       nu = n, f_prev = fp, f_value = f, infeasibility = infeas, max_violation = viol \<rparr>"

section \<open>Phi: the loops over the gradient\<close>

lemma row_loop_length:
  "length (fold (\<lambda>j r. r[j := f (r ! j)]) [0..<d] r) = length r"
  by (induction d) simp_all

lemma row_loop_nth:
  "j < length r \<Longrightarrow>
   fold (\<lambda>j r. r[j := f (r ! j)]) [0..<d] r ! j = (if j < d then f (r ! j) else r ! j)"
proof (induction d)
  case 0
  then show ?case by simp
next
  case (Suc d)
  then show ?case
    by (cases "j = d") (simp_all add: row_loop_length nth_list_update)
qed

lemma inner_loop_row:
  "i < length g \<Longrightarrow>
   fold (\<lambda>j gr. assign_entry f i j gr) [0..<d] g
     = g[i := fold (\<lambda>j r. r[j := f (r ! j)]) [0..<d] (g ! i)]"
  by (induction d) (simp_all add: assign_entry_def)

lemma inner_loop_outside:
  "\<not> i < length g \<Longrightarrow> fold (\<lambda>j gr. assign_entry f i j gr) [0..<d] g = g"
  by (induction d) (simp_all add: assign_entry_def list_update_beyond)

lemma inner_loop_length:
  "length (fold (\<lambda>j gr. assign_entry f i j gr) [0..<d] g) = length g"
  by (cases "i < length g") (simp_all add: inner_loop_row inner_loop_outside)

lemma outer_loop_length:
  "length (fold (\<lambda>i gr. fold (\<lambda>j gr'. assign_entry f i j gr') [0..<dm i] gr) [0..<n] g)
     = length g"
  by (induction n) (simp_all add: inner_loop_length)

lemma outer_loop_row:
  "i < length g \<Longrightarrow>
   fold (\<lambda>i gr. fold (\<lambda>j gr'. assign_entry f i j gr') [0..<dm i] gr) [0..<n] g ! i
     = (if i < n then fold (\<lambda>j r. r[j := f (r ! j)]) [0..<dm i] (g ! i) else g ! i)"
proof (induction n)
  case 0
  then show ?case by simp
next
  case (Suc n)
  let ?h = "fold (\<lambda>i gr. fold (\<lambda>j gr'. assign_entry f i j gr') [0..<dm i] gr) [0..<n] g"
  have len: "length ?h = length g" by (rule outer_loop_length)
  show ?case
  proof (cases "n < length g")
    case True
    with Suc len show ?thesis
      by (cases "i = n") (simp_all add: inner_loop_row nth_list_update)
  next
    case False
    with Suc len show ?thesis
      by (simp add: inner_loop_outside)
  qed
qed

lemma for_each_gradient_entry_length:
  "length (for_each_gradient_entry term f g) = length g"
  unfolding for_each_gradient_entry_def by (rule outer_loop_length)

lemma for_each_gradient_entry_row_length:
  "i < length g \<Longrightarrow> length (for_each_gradient_entry term f g ! i) = length (g ! i)"
  unfolding for_each_gradient_entry_def by (simp add: outer_loop_row row_loop_length)

lemma for_each_gradient_entry_nth:
  "i < length g \<Longrightarrow> j < length (g ! i) \<Longrightarrow>
   for_each_gradient_entry term f g ! i ! j
     = (if i < number_of_variables term \<and> j < variable_dimension term i
        then f (g ! i ! j) else g ! i ! j)"
  unfolding for_each_gradient_entry_def by (simp add: outer_loop_row row_loop_nth)

lemma Phi_value_quadratic_spec:
  "Phi_value_quadratic \<sigma> \<mu> t = \<sigma> * t + (\<mu> / 2) * t\<^sup>2"
  by (simp add: Phi_value_quadratic_def power2_eq_square)

lemma Phi_value_constant_spec:
  "Phi_value_constant \<sigma> \<mu> = - (\<sigma>\<^sup>2) / (2 * \<mu>)"
  by (simp add: Phi_value_constant_def power2_eq_square)

lemma Phi_gradient_quadratic_spec:
  "Phi_gradient_quadratic \<sigma> \<mu> t g = (\<sigma> + \<mu> * t) * g"
  by (simp add: Phi_gradient_quadratic_def algebra_simps)

lemma Phi_value_quadratic_double_spec:
  assumes "0 < \<mu>"
  shows "Phi_value_quadratic_double \<sigma> \<mu> t
           = dadd (dmul (Fin \<sigma>) t) (dmul (Fin (\<mu> / 2)) (dmul t t))"
  using assms by (cases t) (simp_all add: Phi_value_quadratic_double_def)

lemma example_term_evaluate: "term_evaluate example_term [[3]] = Inr (Fin 1)"
  by (simp add: example_term_def)

lemma example_term_evaluate_gradient:
  "term_evaluate_gradient example_term [[3]] [[7]] = Inr (1, [[1]])"
  by (simp add: example_term_def)

section \<open>Phi computes the specified penalty\<close>

text \<open>
  Claim C1. For every \<open>sigma\<close>, every \<open>mu > 0\<close> and every input \<open>x\<close>, with \<open>t\<close> the value
  the wrapped term returns at \<open>x\<close>: the value-only evaluator of Phi returns the
  specification's value (\<open>sigma t + (mu/2) t\<^sup>2\<close> if \<open>- t - sigma/mu \<le> 0\<close>, else
  \<open>- sigma\<^sup>2 / (2 mu)\<close>); the value-plus-gradient evaluator returns the same value and
  leaves, in every entry \<open>(i, j)\<close> of an argument variable (\<open>i\<close> below the arity, \<open>j\<close>
  below the dimension of argument \<open>i\<close>), \<open>(sigma + mu t)\<close> times the entry the wrapped
  term wrote in the first case and \<open>0\<close> in the second. Entries of the scratch beyond
  the arguments keep what the wrapped term left there, and the shape of the scratch
  does not change. The value-only evaluator returns the specification's value also
  when the wrapped term returns an infinity or NaN (the last conjunct): the test
  \<open>- t - sigma/mu \<le> 0\<close> is then false for NaN and for minus infinity, which gives
  \<open>- sigma\<^sup>2 / (2 mu)\<close>, and true for plus infinity.
\<close>

theorem Phi_evaluate_matches_spec:
  assumes "0 < \<mu>"
  shows "(term_evaluate term x = Inr (Fin t) \<longrightarrow>
            Phi_evaluate term \<sigma> \<mu> x = Inr (Fin (spec_Phi_value \<sigma> \<mu> t)))
       \<and> (term_evaluate_gradient term x g0 = Inr (t, g) \<longrightarrow>
            (\<exists>g'. Phi_evaluate_gradient term \<sigma> \<mu> x g0 = Inr (spec_Phi_value \<sigma> \<mu> t, g')
               \<and> length g' = length g
               \<and> (\<forall>i < length g. length (g' ! i) = length (g ! i)
                     \<and> (\<forall>j < length (g ! i).
                          g' ! i ! j =
                            (if i < number_of_variables term \<and> j < variable_dimension term i
                             then spec_Phi_gradient \<sigma> \<mu> t (g ! i ! j)
                             else g ! i ! j)))))
       \<and> (term_evaluate term x = Inr d \<longrightarrow>
            Phi_evaluate term \<sigma> \<mu> x = Inr (spec_Phi_value_double \<sigma> \<mu> d))"
proof (intro conjI impI)
  assume "term_evaluate term x = Inr (Fin t)"
  then show "Phi_evaluate term \<sigma> \<mu> x = Inr (Fin (spec_Phi_value \<sigma> \<mu> t))"
    by (simp add: Phi_evaluate_def spec_Phi_value_def Phi_value_quadratic_double_def
        Phi_value_constant_spec power2_eq_square)
next
  assume "term_evaluate term x = Inr d"
  with assms show "Phi_evaluate term \<sigma> \<mu> x = Inr (spec_Phi_value_double \<sigma> \<mu> d)"
    by (simp add: Phi_evaluate_def spec_Phi_value_double_def Phi_value_quadratic_double_spec
        Phi_value_constant_spec)
next
  assume ev: "term_evaluate_gradient term x g0 = Inr (t, g)"
  show "\<exists>g'. Phi_evaluate_gradient term \<sigma> \<mu> x g0 = Inr (spec_Phi_value \<sigma> \<mu> t, g')
               \<and> length g' = length g
               \<and> (\<forall>i < length g. length (g' ! i) = length (g ! i)
                     \<and> (\<forall>j < length (g ! i).
                          g' ! i ! j =
                            (if i < number_of_variables term \<and> j < variable_dimension term i
                             then spec_Phi_gradient \<sigma> \<mu> t (g ! i ! j)
                             else g ! i ! j)))"
  proof (cases "- t - \<sigma> / \<mu> \<le> 0")
    case True
    with ev show ?thesis
      by (simp add: Phi_evaluate_gradient_def spec_Phi_value_def spec_Phi_gradient_def
          Phi_value_quadratic_spec Phi_gradient_quadratic_spec
          for_each_gradient_entry_length for_each_gradient_entry_row_length
          for_each_gradient_entry_nth)
  next
    case False
    with ev show ?thesis
      by (simp add: Phi_evaluate_gradient_def spec_Phi_value_def spec_Phi_gradient_def
          Phi_value_constant_spec Phi_gradient_constant_def
          for_each_gradient_entry_length for_each_gradient_entry_row_length
          for_each_gradient_entry_nth)
  qed
qed

text \<open>
  At \<open>sigma = 2\<close>, \<open>mu = 10\<close> and \<open>x = 3\<close> the constraint \<open>c(x) = x - 2\<close> has value
  \<open>t = 1\<close> and gradient \<open>1\<close>; Phi returns \<open>2 \<cdot> 1 + 5 \<cdot> 1 = 7\<close> and the gradient
  \<open>(2 + 10) \<cdot> 1 = 12\<close>.
\<close>

theorem Phi_evaluate_matches_spec_witness:
  "(0::real) < 10
   \<and> term_evaluate example_term [[3]] = Inr (Fin 1)
   \<and> Phi_evaluate example_term 2 10 [[3]] = Inr (Fin 7)
   \<and> term_evaluate_gradient example_term [[3]] [[7]] = Inr (1, [[1]])
   \<and> (\<exists>g'. Phi_evaluate_gradient example_term 2 10 [[3]] [[7]] = Inr (7, g')
          \<and> length g' = 1 \<and> length (g' ! 0) = 1 \<and> g' ! 0 ! 0 = 12)
   \<and> spec_Phi_value_double 2 10 (Fin 1) = Fin 7"
proof -
  have positive: "(0::real) < 10" by simp
  have v: "spec_Phi_value 2 10 1 = 7"
    by (simp add: spec_Phi_value_def)
  have vd: "spec_Phi_value_double 2 10 (Fin 1) = Fin 7"
    by (simp add: spec_Phi_value_double_def)
  have n: "number_of_variables example_term = 1" "variable_dimension example_term 0 = 1"
    by (simp_all add: example_term_def)
  have gr: "spec_Phi_gradient 2 10 1 1 = 12"
    by (simp add: spec_Phi_gradient_def)
  from Phi_evaluate_matches_spec
         [OF positive, of example_term "[[3]]" 1 2 "[[7]]" "[[1]]" "Fin 1"]
  show ?thesis
    by (simp add: example_term_evaluate example_term_evaluate_gradient v vd n gr)
qed

section \<open>Phi is continuously differentiable across the switch\<close>

text \<open>
  Claim C5. For every \<open>sigma\<close> and every \<open>mu > 0\<close>, at the switching surface
  \<open>t = - sigma / mu\<close> the value of the first branch of \<open>Phi::evaluate\<close>
  (\<open>sigma t + (mu/2) t t\<close>) equals the value of the second branch
  (\<open>- 1 / (2 mu) sigma sigma\<close>), and the gradient entry the first branch writes
  (\<open>sigma g + mu t g\<close>, for any entry \<open>g\<close> of the wrapped gradient) equals the \<open>0\<close>
  the second branch writes. The surface itself belongs to the first branch, so both
  evaluators return that common value there.
\<close>

theorem Phi_continuously_differentiable_at_switch:
  assumes "0 < \<mu>"
  shows "Phi_value_quadratic \<sigma> \<mu> (- \<sigma> / \<mu>) = Phi_value_constant \<sigma> \<mu>
       \<and> Phi_gradient_quadratic \<sigma> \<mu> (- \<sigma> / \<mu>) g = Phi_gradient_constant g
       \<and> (term_evaluate term x = Inr (Fin (- \<sigma> / \<mu>)) \<longrightarrow>
            Phi_evaluate term \<sigma> \<mu> x = Inr (Fin (Phi_value_constant \<sigma> \<mu>)))"
proof -
  from assms have v: "Phi_value_quadratic \<sigma> \<mu> (- \<sigma> / \<mu>) = Phi_value_constant \<sigma> \<mu>"
    by (simp add: Phi_value_quadratic_def Phi_value_constant_def field_simps)
  from assms have g: "Phi_gradient_quadratic \<sigma> \<mu> (- \<sigma> / \<mu>) g = Phi_gradient_constant g"
    by (simp add: Phi_gradient_quadratic_def Phi_gradient_constant_def field_simps)
  have "Phi_value_quadratic_double \<sigma> \<mu> (Fin (- \<sigma> / \<mu>))
          = Fin (Phi_value_quadratic \<sigma> \<mu> (- \<sigma> / \<mu>))"
    by (simp add: Phi_value_quadratic_double_def Phi_value_quadratic_def)
  with v g show ?thesis
    by (simp add: Phi_evaluate_def)
qed

text \<open>
  At \<open>sigma = 2\<close>, \<open>mu = 10\<close> the surface is \<open>t = -1/5\<close>, that is \<open>x = 9/5\<close> for
  \<open>c(x) = x - 2\<close>; both branches give \<open>-1/5\<close>.
\<close>

theorem Phi_continuously_differentiable_at_switch_witness:
  "(0::real) < 10
   \<and> Phi_value_quadratic 2 10 (- 2 / 10) = - 1 / 5
   \<and> Phi_value_constant 2 10 = - 1 / 5
   \<and> Phi_gradient_quadratic 2 10 (- 2 / 10) 1 = 0
   \<and> term_evaluate example_term [[9 / 5]] = Inr (Fin (- 2 / 10))
   \<and> Phi_evaluate example_term 2 10 [[9 / 5]] = Inr (Fin (- 1 / 5))"
proof -
  have positive: "(0::real) < 10" by simp
  have c: "Phi_value_constant 2 10 = - 1 / 5"
    by (simp add: Phi_value_constant_def)
  have e: "term_evaluate example_term [[9 / 5]] = Inr (Fin (- 2 / 10))"
    by (simp add: example_term_def)
  from Phi_continuously_differentiable_at_switch [OF positive, of 2 1 example_term "[[9 / 5]]"]
  show ?thesis
    by (simp add: c e Phi_gradient_constant_def)
qed

section \<open>Function: index consistency\<close>

lemma index_consistent_iff:
  "index_consistent F \<longleftrightarrow>
     sum_list (solver_dimensions F) = number_of_scalars F
     \<and> (\<forall>n < length (variables F).
           global_index (snd (variables F ! n)) = sum_list (take n (solver_dimensions F)))"
  by (auto simp add: index_consistent_def list_all_iff)

lemma index_consistent_append:
  assumes "index_consistent F"
    and "variables F' = variables F @ [(k, v)]"
    and "global_index v = number_of_scalars F"
    and "number_of_scalars F' = number_of_scalars F + solver_dimension v"
  shows "index_consistent F'"
proof -
  have dims: "solver_dimensions F' = solver_dimensions F @ [solver_dimension v]"
    using assms(2) by (simp add: solver_dimensions_def)
  have len: "length (solver_dimensions F) = length (variables F)"
    by (simp add: solver_dimensions_def)
  from assms(1) have total: "sum_list (solver_dimensions F) = number_of_scalars F"
    and each: "\<And>n. n < length (variables F) \<Longrightarrow>
           global_index (snd (variables F ! n)) = sum_list (take n (solver_dimensions F))"
    by (simp_all add: index_consistent_iff)
  have "global_index (snd (variables F' ! n)) = sum_list (take n (solver_dimensions F'))"
    if "n < length (variables F')" for n
  proof (cases "n < length (variables F)")
    case True
    then show ?thesis
      using each [OF True] by (simp add: assms(2) dims len nth_append)
  next
    case False
    with that have "n = length (variables F)"
      by (simp add: assms(2))
    then show ?thesis
      by (simp add: assms(2,3) dims len total)
  qed
  then show ?thesis
    by (simp add: index_consistent_iff dims total assms(4))
qed

lemma index_consistent_frame:
  assumes "index_consistent F"
    and "variables F' = variables F" and "number_of_scalars F' = number_of_scalars F"
  shows "index_consistent F'"
  using assms by (simp add: index_consistent_iff solver_dimensions_def)

lemma add_variable_internal_extends:
  assumes "add_variable_internal variable dimension cov F = Inr F'"
  shows "\<exists>extra. variables F' = variables F @ extra"
  using assms
  by (auto simp add: add_variable_internal_def Let_def find_variable_def
      split: option.splits if_splits)

lemma add_variable_internal_consistent:
  assumes "add_variable_internal variable dimension cov F = Inr F'" and "index_consistent F"
  shows "index_consistent F'"
proof (cases "find_variable F variable")
  case (Some v)
  with assms(1) have "variables F' = variables F" "number_of_scalars F' = number_of_scalars F"
    by (auto simp add: add_variable_internal_def Let_def find_variable_def split: if_splits)
  with assms(2) show ?thesis by (rule index_consistent_frame)
next
  case None
  show ?thesis
  proof (cases cov)
    case cn: None
    with None assms(1) show ?thesis
      by (auto simp add: add_variable_internal_def Let_def find_variable_def
          intro!: index_consistent_append [OF assms(2)])
  next
    case (Some c)
    with None assms(1) show ?thesis
      by (auto simp add: add_variable_internal_def Let_def find_variable_def
          split: if_splits intro!: index_consistent_append [OF assms(2)])
  qed
qed

lemma add_term_frame:
  assumes "add_term t arguments F = Inr F'"
  shows "variables F' = variables F \<and> number_of_scalars F' = number_of_scalars F"
  using assms
  by (auto simp add: add_term_def Let_def split: option.splits if_splits)

lemma build_one_extends:
  "build_one step F = Inr F' \<Longrightarrow> \<exists>extra. variables F' = variables F @ extra"
  by (cases step) (auto dest: add_variable_internal_extends add_term_frame)

lemma build_one_consistent:
  "build_one step F = Inr F' \<Longrightarrow> index_consistent F \<Longrightarrow> index_consistent F'"
  by (cases step)
     (auto dest: add_variable_internal_consistent add_term_frame intro: index_consistent_frame)

lemma build_extends:
  "build steps F = Inr F' \<Longrightarrow> \<exists>extra. variables F' = variables F @ extra"
proof (induction steps arbitrary: F)
  case Nil
  then show ?case by simp
next
  case (Cons step steps)
  then obtain F1 where one: "build_one step F = Inr F1" and rest: "build steps F1 = Inr F'"
    by (auto split: sum.splits)
  from build_one_extends [OF one] Cons.IH [OF rest] show ?case by auto
qed

lemma build_consistent:
  "build steps F = Inr F' \<Longrightarrow> index_consistent F \<Longrightarrow> index_consistent F'"
proof (induction steps arbitrary: F)
  case Nil
  then show ?case by simp
next
  case (Cons step steps)
  then obtain F1 where one: "build_one step F = Inr F1" and rest: "build steps F1 = Inr F'"
    by (auto split: sum.splits)
  from build_one_consistent [OF one Cons.prems(2)] Cons.IH [OF rest] show ?case by simp
qed

lemma index_consistent_new: "index_consistent Function_new"
  by (simp add: index_consistent_def Function_new_def solver_dimensions_def)

lemma example_steps_build: "build example_steps Function_new = Inr example_function"
  by (simp add: example_steps_def example_function_def example_variables_def Function_new_def
      add_variable_internal_def find_variable_def Let_def eval_nat_numeral)

lemma example_more_steps_build: "build example_more_steps example_function = Inr example_function_more"
  by (simp add: example_more_steps_def example_function_def example_function_more_def
      example_variables_def Function_new_def add_variable_internal_def add_term_def
      find_variable_def Let_def example_term_def hessian_scratch_def eval_nat_numeral)

text \<open>
  Claim C4. After every finite sequence of successful \<open>add_variable\<close> calls on a
  \<open>Function\<close> (with successful \<open>add_term\<close> calls anywhere between them), the sum of
  \<open>solver_dimension\<close> over all registered variables equals \<open>number_of_scalars\<close>, and
  every variable's \<open>global_index\<close> equals the sum of \<open>solver_dimension\<close> over the
  variables registered strictly before it; and whatever variables and terms are added
  afterwards, a variable that is registered keeps its \<open>global_index\<close>.
\<close>

theorem global_index_consistent_and_stable:
  assumes "build steps Function_new = Inr F"
  shows "index_consistent F
       \<and> (\<forall>more F' variable v.
             build more F = Inr F' \<longrightarrow> find_variable F variable = Some v \<longrightarrow>
             (\<exists>v'. find_variable F' variable = Some v' \<and> global_index v' = global_index v))"
proof -
  have "index_consistent F"
    using build_consistent [OF assms index_consistent_new] .
  moreover have "\<exists>v'. find_variable F' variable = Some v' \<and> global_index v' = global_index v"
    if "build more F = Inr F'" and "find_variable F variable = Some v" for more F' variable v
  proof -
    from build_extends [OF that(1)] obtain extra where "variables F' = variables F @ extra" ..
    with that(2) show ?thesis
      by (simp add: find_variable_def)
  qed
  ultimately show ?thesis by blast
qed

text \<open>
  The example: dimensions 2 and 3 give the indices 0 and 2 and five scalars; after one
  more variable and a term, the variable at address 1 still has index 2.
\<close>

theorem global_index_consistent_and_stable_witness:
  "build example_steps Function_new = Inr example_function
   \<and> index_consistent example_function
   \<and> number_of_scalars example_function = 5
   \<and> map (\<lambda>(k, v). global_index v) (variables example_function) = [0, 2]
   \<and> build example_more_steps example_function = Inr example_function_more
   \<and> map_option global_index (find_variable example_function 1) = Some 2
   \<and> map_option global_index (find_variable example_function_more 1) = Some 2"
proof -
  have v: "find_variable example_function 1 =
             Some \<lparr> user_dimension = 3, solver_dimension = 3, global_index = 2,
                    change_of_variables = None, temp_space = [0, 0, 0] \<rparr>"
    by (simp add: find_variable_def example_function_def example_variables_def)
  from global_index_consistent_and_stable [OF example_steps_build]
  have c: "index_consistent example_function"
    and "\<exists>v'. find_variable example_function_more 1 = Some v' \<and> global_index v' = 2"
    using example_more_steps_build v by fastforce+
  then show ?thesis
    using example_steps_build example_more_steps_build v
    by (auto simp add: example_function_def example_variables_def)
qed

section \<open>Function: what an evaluation preserves\<close>

lemma map_of_map_entry:
  "map_of (map (\<lambda>(k, v). (k, f k v)) xs) k = map_option (f k) (map_of xs k)"
  by (induction xs) auto

lemma copy_global_to_local_the_variable:
  "global_index (the_variable (copy_global_to_local x F) k) = global_index (the_variable F k)
   \<and> change_of_variables (the_variable (copy_global_to_local x F) k)
       = change_of_variables (the_variable F k)"
proof -
  let ?f = "\<lambda>(k::'a) v. case change_of_variables v of
                   None \<Rightarrow>
                     v\<lparr>temp_space :=
                         copy_loop (user_dimension v) (\<lambda>i. x ! (global_index v + i))
                                   (temp_space v)\<rparr>
                 | Some c \<Rightarrow> v\<lparr>temp_space := t_to_x c (drop (global_index v) x)\<rparr>"
  have "find_variable (copy_global_to_local x F) k = map_option (?f k) (find_variable F k)"
    unfolding find_variable_def copy_global_to_local_def
    using map_of_map_entry [of ?f "variables F" k] by simp
  then show ?thesis
    by (cases "find_variable F k") (simp_all add: the_variable_def split: option.splits)
qed

lemma copy_global_to_local_global_index:
  "global_index (the_variable (copy_global_to_local x F) k) = global_index (the_variable F k)"
  by (simp add: copy_global_to_local_the_variable)

lemma prepare_evaluation_the_variable:
  "global_index (the_variable (prepare_evaluation x F) k) = global_index (the_variable F k)
   \<and> change_of_variables (the_variable (prepare_evaluation x F) k)
       = change_of_variables (the_variable F k)"
proof -
  have frame: "the_variable (G\<lparr>thread_gradient_storage := s\<rparr>) k = the_variable G k"
    for G :: "'a Function" and s
    by (simp add: the_variable_def find_variable_def)
  have alloc: "the_variable (allocate_local_storage F) k = the_variable F k"
    by (simp add: the_variable_def find_variable_def allocate_local_storage_def Let_def)
  show ?thesis
    by (simp add: prepare_evaluation_def Let_def frame copy_global_to_local_the_variable alloc)
qed

lemma prepare_evaluation_global_index:
  "global_index (the_variable (prepare_evaluation x F) k) = global_index (the_variable F k)"
  by (simp add: prepare_evaluation_the_variable)

lemma prepare_evaluation_terms: "terms (prepare_evaluation x F) = terms F"
  by (simp add: prepare_evaluation_def Let_def copy_global_to_local_def
      allocate_local_storage_def)

lemma prepare_evaluation_storage_zero:
  "set (thread_gradient_storage (prepare_evaluation x F)) \<subseteq> {0}"
  by (auto simp add: prepare_evaluation_def Let_def)

lemma assemble_gradient_overwrites:
  "assemble_gradient n gradient storage = map2 (+) (replicate n 0) storage"
  by (simp add: assemble_gradient_def Let_def map_replicate_const)

lemma prepare_evaluation_number_of_scalars:
  "number_of_scalars (prepare_evaluation x F) = number_of_scalars F"
  by (simp add: prepare_evaluation_def Let_def copy_global_to_local_def allocate_local_storage_def)

lemmas evaluation_defs =
  evaluate_dense_def prepare_evaluation_def allocate_local_storage_def
  copy_global_to_local_def copy_loop_def temp_variables_def the_variable_def find_variable_def
  accumulate_gradient_def add_gradient_block_def assemble_gradient_def Let_def

lemma example_steps_cov_build: "build example_steps_cov Function_new = Inr example_function_cov"
  by (simp add: example_steps_cov_def example_function_cov_def Function_new_def
      add_variable_internal_def add_term_def find_variable_def Let_def example_term_def
      example_change_of_variables_def hessian_scratch_def)

lemma example_steps_plain_build: "build example_steps_plain Function_new = Inr example_function_plain"
  by (simp add: example_steps_plain_def example_function_plain_def Function_new_def
      add_variable_internal_def add_term_def find_variable_def Let_def example_term_def
      hessian_scratch_def)


section \<open>Function: the dense Hessian path fails late\<close>

lemma term_loop_dense_failure:
  "term_loop_dense with_hessian F x tms acc = Inl e \<Longrightarrow> \<exists>message. e = TermFailure message"
proof (induction tms arbitrary: acc)
  case Nil
  then show ?case by (cases acc) simp
next
  case (Cons tm tms)
  obtain val scratch storage where acc: "acc = (val, scratch, storage)"
    by (cases acc)
  from Cons.prems Cons.IH show ?case
    unfolding acc
    by (auto split: if_splits sum.splits prod.splits)
qed

lemma term_loop_dense_terms:
  "term_loop_dense with_hessian F x tms acc = Inr (val, scratch, storage, tms') \<Longrightarrow>
   map added_term tms' = map added_term tms \<and> map user_variables tms' = map user_variables tms"
proof (induction tms arbitrary: acc val scratch storage tms')
  case Nil
  then show ?case by (cases acc) auto
next
  case (Cons tm tms)
  obtain val0 scratch0 storage0 where acc: "acc = (val0, scratch0, storage0)"
    by (cases acc)
  from Cons.prems Cons.IH show ?case
    unfolding acc
    by (fastforce split: if_splits sum.splits prod.splits)
qed

lemma add_gradient_block_length:
  "length (add_gradient_block global_offset n block storage) = length storage"
  unfolding add_gradient_block_def by (induction n) simp_all

lemma add_gradient_block_nth:
  "k < length storage \<Longrightarrow>
   add_gradient_block global_offset n block storage ! k
     = storage ! k + (if global_offset \<le> k \<and> k < global_offset + n
                      then block ! (k - global_offset) else 0)"
proof (induction n)
  case 0
  then show ?case by (simp add: add_gradient_block_def)
next
  case (Suc n)
  have len: "length (fold (\<lambda>i st. st[global_offset + i := st ! (global_offset + i) + block ! i])
                [0..<n] storage) = length storage"
    using add_gradient_block_length [of global_offset n block storage]
    by (simp add: add_gradient_block_def)
  from Suc show ?case
    by (cases "k = global_offset + n")
       (auto simp add: add_gradient_block_def len nth_list_update)
qed

lemma add_gradient_block_spec:
  "add_gradient_block global_offset n block storage
     = map (\<lambda>k. storage ! k + (if global_offset \<le> k \<and> k < global_offset + n
                                then block ! (k - global_offset) else 0))
           [0..<length storage]"
  by (rule nth_equalityI) (simp_all add: add_gradient_block_length add_gradient_block_nth)

lemma accumulate_gradient_spec:
  "accumulate_gradient F x tm scratch storage = spec_scatter_term F x tm scratch storage"
proof -
  have step: "(\<lambda>var st.
             let v = the_variable F (user_variables tm ! var);
                 global_offset = global_index v
             in case change_of_variables v of
                  None \<Rightarrow> add_gradient_block global_offset (user_dimension v) (scratch ! var) st
                | Some c \<Rightarrow>
                    take global_offset st @
                    update_gradient c (drop global_offset st) (drop global_offset x) (scratch ! var))
        = (\<lambda>var g'. spec_scatter_argument (the_variable F (user_variables tm ! var)) x
                        (scratch ! var) g')"
    by (intro ext)
       (simp add: Let_def spec_scatter_argument_def add_gradient_block_spec split: option.splits)
  show ?thesis
    unfolding accumulate_gradient_def spec_scatter_term_def step
    by (simp add: foldl_conv_fold)
qed

lemma term_loop_dense_terms_evaluated:
  "term_loop_dense True F x tms (val, scratch, storage) = Inr (val', scratch', storage', tms') \<Longrightarrow>
   terms_evaluated F x tms (val, scratch, storage) (val', scratch', storage', tms')"
proof (induction tms arbitrary: val scratch storage tms')
  case Nil
  then show ?case by (auto intro: terms_evaluated.no_term)
next
  case (Cons tm tms)
  from Cons.prems obtain v scratch1 blocks where
    ev: "term_evaluate_hessian (added_term tm) (temp_variables F tm) scratch (hessian tm)
           = Inr (v, scratch1, blocks)"
    by (auto split: sum.splits)
  from Cons.prems ev obtain rest' where
    rest: "term_loop_dense True F x tms
             (val + v, scratch1, accumulate_gradient F x tm scratch1 storage)
           = Inr (val', scratch', storage', rest')"
    and tms': "tms' = tm\<lparr>hessian := blocks\<rparr> # rest'"
    by (auto split: sum.splits)
  from Cons.IH [OF rest]
  have "terms_evaluated F x tms (val + v, scratch1, spec_scatter_term F x tm scratch1 storage)
          (val', scratch', storage', rest')"
    by (simp add: accumulate_gradient_spec)
  with ev show ?case
    unfolding tms' by (rule terms_evaluated.one_term)
qed

lemma scatter_row_error:
  "scatter_row part_hessian global_offset0 global_offset1 i js H = (Some e, H') \<Longrightarrow>
   e = HessianAccessOutOfBounds"
  by (induction js arbitrary: H) (simp_all split: if_splits)

lemma scatter_block_error:
  "scatter_block part_hessian global_offset0 global_offset1 is js H = (Some e, H') \<Longrightarrow>
   e = HessianAccessOutOfBounds"
proof (induction "is" arbitrary: H)
  case Nil
  then show ?case by simp
next
  case (Cons i "is")
  show ?case
  proof (cases "scatter_row part_hessian global_offset0 global_offset1 i js H")
    case (Pair r H1)
    with Cons show ?thesis
      by (cases r) (auto dest: scatter_row_error)
  qed
qed

lemma scatter_blocks_error:
  "scatter_blocks F tm var0 var1s H = (Some e, H') \<Longrightarrow> e = HessianAccessOutOfBounds"
proof (induction var1s arbitrary: H)
  case Nil
  then show ?case by simp
next
  case (Cons var1 var1s)
  show ?case
  proof (cases "var0 < length (hessian tm) \<and> var1 < length (hessian tm ! var0)")
    case False
    with Cons.prems show ?thesis by auto
  next
    case True
    show ?thesis
    proof (cases "scatter_block (hessian tm ! var0 ! var1)
                (global_index (the_variable F (user_variables tm ! var0)))
                (global_index (the_variable F (user_variables tm ! var1)))
                [0..<variable_dimension (added_term tm) var0]
                [0..<variable_dimension (added_term tm) var1] H")
      case (Pair r H1)
      with True Cons show ?thesis
        by (cases r) (auto dest: scatter_block_error)
    qed
  qed
qed

lemma scatter_term_dense_change_of_variables:
  "scatter_term_dense F tm vars H = (Some ChangeOfVariablesNotSupportedForHessians, H') \<Longrightarrow>
   \<exists>var \<in> set vars. change_of_variables (the_variable F (user_variables tm ! var)) \<noteq> None"
proof (induction vars arbitrary: H)
  case Nil
  then show ?case by simp
next
  case (Cons var0 vars)
  show ?case
  proof (cases "change_of_variables (the_variable F (user_variables tm ! var0)) \<noteq> None")
    case True
    then show ?thesis by simp
  next
    case False
    show ?thesis
    proof (cases "scatter_blocks F tm var0 [0..<number_of_variables (added_term tm)] H")
      case (Pair r H1)
      with False Cons show ?thesis
        by (cases r) (auto dest: scatter_blocks_error)
    qed
  qed
qed

lemma scatter_dense_change_of_variables:
  "scatter_dense F tms H = (Some ChangeOfVariablesNotSupportedForHessians, H') \<Longrightarrow>
   \<exists>tm \<in> set tms. \<exists>var < number_of_variables (added_term tm).
      change_of_variables (the_variable F (user_variables tm ! var)) \<noteq> None"
proof (induction tms arbitrary: H)
  case Nil
  then show ?case by simp
next
  case (Cons tm tms)
  show ?case
  proof (cases "scatter_term_dense F tm [0..<number_of_variables (added_term tm)] H")
    case (Pair r H1)
    show ?thesis
    proof (cases r)
      case None
      with Pair Cons show ?thesis by auto
    next
      case (Some e)
      with Pair Cons.prems
      have "scatter_term_dense F tm [0..<number_of_variables (added_term tm)] H
              = (Some ChangeOfVariablesNotSupportedForHessians, H')"
        by simp
      from scatter_term_dense_change_of_variables [OF this] show ?thesis
        by auto
    qed
  qed
qed


lemma same_terms_change_of_variables:
  assumes "map added_term (tms' :: 'k AddedTerm list) = map added_term (tms :: 'k AddedTerm list)"
    and "map user_variables tms' = map user_variables tms"
    and "\<exists>tm \<in> set tms'. \<exists>var < number_of_variables (added_term tm).
           P (user_variables tm ! var)"
  shows "\<exists>tm \<in> set tms. \<exists>var < number_of_variables (added_term tm).
           P (user_variables tm ! var)"
proof -
  from assms(3) obtain tm' var where tm': "tm' \<in> set tms'"
    and var: "var < number_of_variables (added_term tm')" and P: "P (user_variables tm' ! var)"
    by blast
  from tm' obtain n where n: "n < length tms'" and nth: "tms' ! n = tm'"
    by (auto simp add: in_set_conv_nth)
  from assms(1) have len: "length tms' = length tms"
    by (rule map_eq_imp_length_eq)
  from assms(1) n len have a: "added_term (tms ! n) = added_term tm'"
    using nth_map [of n tms added_term] nth_map [of n tms' added_term] nth by simp
  from assms(2) n len have u: "user_variables (tms ! n) = user_variables tm'"
    using nth_map [of n tms user_variables] nth_map [of n tms' user_variables] nth by simp
  from n len have member: "tms ! n \<in> set tms" by simp
  from a u var P
  have "var < number_of_variables (added_term (tms ! n)) \<and> P (user_variables (tms ! n) ! var)"
    by simp
  with member show ?thesis by blast
qed

lemma example_steps_mixed_build:
  "build example_steps_mixed Function_new = Inr example_function_mixed"
  by (simp add: example_steps_mixed_def example_function_mixed_def Function_new_def
      add_variable_internal_def add_term_def find_variable_def Let_def example_term_def
      quadratic_term_def example_change_of_variables_def hessian_scratch_def)

lemma example_steps_circle_build:
  "build example_steps_circle Function_new = Inr example_function_circle"
  by (simp add: example_steps_circle_def example_function_circle_def Function_new_def
      add_variable_internal_def add_term_def find_variable_def Let_def sum_term_def
      circle_change_of_variables_def hessian_scratch_def eval_nat_numeral)

lemma example_dense_mixed:
  "\<exists>F'. evaluate_dense [5, 7] [99, 99] (Some []) example_function_mixed =
     (Inl ChangeOfVariablesNotSupportedForHessians, F', [4, 1], Some [[2, 0], [0, 0]])"
  by (simp add: evaluation_defs example_function_mixed_def Function_new_def example_term_def
      quadratic_term_def example_change_of_variables_def eval_nat_numeral)

lemma example_dense_cov:
  "\<exists>F'. evaluate_dense [3] [99] (Some []) example_function_cov =
     (Inl ChangeOfVariablesNotSupportedForHessians, F', [1], Some [[0]])"
  by (simp add: evaluation_defs example_function_cov_def Function_new_def example_term_def
      example_change_of_variables_def)

text \<open>
  Claim C10. When \<open>Function::evaluate(x, gradient, dense_hessian)\<close> fails because an
  argument variable of some term has a change of variables, then some term of the
  function does have such an argument, and the exception comes from the scatter pass
  over the Hessian blocks, after the loop over the terms has run to its end. At that
  moment every term of the function has been evaluated, in order, each with the scratch
  the previous one left, its value added to the sum and its gradient blocks added to
  the thread's gradient at the offsets of its arguments (\<open>terms_evaluated\<close>, starting
  from the value 0 and a thread gradient of zeros), and the output gradient has been
  replaced by the assembled gradient: zeros of length \<open>number_of_scalars\<close> plus the
  thread's gradient, whatever it held before. The call is not atomic: the caller sees
  the exception and a modified \<open>gradient\<close>.
\<close>

theorem dense_hessian_failure_after_gradient:
  assumes "evaluate_dense x gradient (Some H0) F =
             (Inl ChangeOfVariablesNotSupportedForHessians, F', gradient', H')"
  shows "\<exists>val scratch storage H''.
           term_loop_dense True (prepare_evaluation x F) x (terms (prepare_evaluation x F))
               (0, thread_gradient_scratch (prepare_evaluation x F),
                   thread_gradient_storage (prepare_evaluation x F))
             = Inr (val, scratch, storage, terms F')
         \<and> length (terms F') = length (terms F)
         \<and> terms_evaluated (prepare_evaluation x F) x (terms F)
               (0, thread_gradient_scratch (prepare_evaluation x F),
                   thread_gradient_storage (prepare_evaluation x F))
               (val, scratch, storage, terms F')
         \<and> set (thread_gradient_storage (prepare_evaluation x F)) \<subseteq> {0}
         \<and> gradient' = map2 (+) (replicate (number_of_scalars F) 0) storage
         \<and> scatter_dense F' (terms F')
               (replicate (number_of_scalars F) (replicate (number_of_scalars F) 0))
             = (Some ChangeOfVariablesNotSupportedForHessians, H'')
         \<and> H' = Some H''
         \<and> (\<exists>tm \<in> set (terms F). \<exists>var < number_of_variables (added_term tm).
               change_of_variables (the_variable F (user_variables tm ! var)) \<noteq> None)"
proof -
  let ?F1 = "prepare_evaluation x F"
  let ?N = "number_of_scalars F"
  let ?loop = "term_loop_dense True ?F1 x (terms ?F1)
                 (0, thread_gradient_scratch ?F1, thread_gradient_storage ?F1)"
  have enabled: "hessian_is_enabled F"
  proof (rule ccontr)
    assume "\<not> hessian_is_enabled F"
    with assms show False by (simp add: evaluate_dense_def)
  qed
  show ?thesis
  proof (cases ?loop)
    case (Inl e)
    then obtain message where "e = TermFailure message"
      using term_loop_dense_failure by blast
    with Inl enabled assms show ?thesis
      by (simp add: evaluate_dense_def Let_def)
  next
    case (Inr r)
    obtain val scratch storage terms' where r: "r = (val, scratch, storage, terms')"
      by (cases r)
    let ?F2 = "?F1\<lparr>terms := terms', thread_gradient_scratch := scratch,
                     thread_gradient_storage := storage\<rparr>"
    obtain e H'' where scatter:
      "scatter_dense ?F2 terms' (replicate ?N (replicate ?N 0)) = (e, H'')"
      by (cases "scatter_dense ?F2 terms' (replicate ?N (replicate ?N 0))")
    from Inr r enabled assms scatter
    have e: "e = Some ChangeOfVariablesNotSupportedForHessians"
      and F': "F' = ?F2"
      and gradient': "gradient' = assemble_gradient ?N gradient storage"
      and H': "H' = Some H''"
      by (auto simp add: evaluate_dense_def Let_def prepare_evaluation_number_of_scalars
          split: option.splits)
    have loop: "term_loop_dense True ?F1 x (terms F)
                  (0, thread_gradient_scratch ?F1, thread_gradient_storage ?F1)
                = Inr (val, scratch, storage, terms')"
      using Inr r by (simp add: prepare_evaluation_terms)
    have same: "map added_term terms' = map added_term (terms F)"
      "map user_variables terms' = map user_variables (terms F)"
      using term_loop_dense_terms [OF loop] by simp_all
    have len: "length terms' = length (terms F)"
      using same(1) by (rule map_eq_imp_length_eq)
    have variable: "change_of_variables (the_variable ?F2 k)
                      = change_of_variables (the_variable F k)" for k
    proof -
      have "the_variable ?F2 k = the_variable ?F1 k"
        by (simp add: the_variable_def find_variable_def)
      then show ?thesis by (simp add: prepare_evaluation_the_variable)
    qed
    from scatter e
    have "\<exists>tm \<in> set terms'. \<exists>var < number_of_variables (added_term tm).
            change_of_variables (the_variable ?F2 (user_variables tm ! var)) \<noteq> None"
      using scatter_dense_change_of_variables [of ?F2 terms' _ H''] by simp
    then have "\<exists>tm \<in> set terms'. \<exists>var < number_of_variables (added_term tm).
            change_of_variables (the_variable F (user_variables tm ! var)) \<noteq> None"
      by (simp only: variable)
    with same
    have cov: "\<exists>tm \<in> set (terms F). \<exists>var < number_of_variables (added_term tm).
            change_of_variables (the_variable F (user_variables tm ! var)) \<noteq> None"
      by (rule same_terms_change_of_variables)
    have c1: "?loop = Inr (val, scratch, storage, terms F')"
      using Inr r F' by simp
    have c2: "length (terms F') = length (terms F)"
      using len F' by simp
    have c3: "terms_evaluated ?F1 x (terms F)
               (0, thread_gradient_scratch ?F1, thread_gradient_storage ?F1)
               (val, scratch, storage, terms F')"
      using term_loop_dense_terms_evaluated [OF loop] F' by simp
    have c4: "set (thread_gradient_storage ?F1) \<subseteq> {0}"
      by (rule prepare_evaluation_storage_zero)
    have c5: "gradient' = map2 (+) (replicate ?N 0) storage"
      using gradient' by (simp add: assemble_gradient_overwrites)
    have c6: "scatter_dense F' (terms F') (replicate ?N (replicate ?N 0))
               = (Some ChangeOfVariablesNotSupportedForHessians, H'')"
      using scatter e F' by simp
    from c1 c2 c3 c4 c5 c6 H' cov show ?thesis
      by blast
  qed
qed

text \<open>
  Two variables, the second with a change of variables, the terms \<open>(x\<^sub>0 - 3)\<^sup>2\<close> and
  \<open>x\<^sub>1 - 2\<close>, the point \<open>(5, 7)\<close> and an output gradient that holds \<open>(99, 99)\<close>
  before the call: both terms are evaluated (the sum is \<open>4 + 5 = 9\<close>), the call throws
  when the scatter reaches the second term, and the gradient holds \<open>(4, 1)\<close>.
\<close>

theorem dense_hessian_failure_after_gradient_witness:
  "\<exists>F' val scratch storage.
      evaluate_dense [5, 7] [99, 99] (Some []) example_function_mixed =
        (Inl ChangeOfVariablesNotSupportedForHessians, F', [4, 1], Some [[2, 0], [0, 0]])
    \<and> terms_evaluated (prepare_evaluation [5, 7] example_function_mixed) [5, 7]
          (terms example_function_mixed)
          (0, thread_gradient_scratch (prepare_evaluation [5, 7] example_function_mixed),
              thread_gradient_storage (prepare_evaluation [5, 7] example_function_mixed))
          (val, scratch, storage, terms F')
    \<and> thread_gradient_storage (prepare_evaluation [5, 7] example_function_mixed) = [0, 0]
    \<and> length (terms F') = 2
    \<and> val = 9 \<and> storage = [4, 1]
    \<and> [4, 1] = map2 (+) [0, 0] storage
    \<and> [4, 1] \<noteq> [99, 99::real]
    \<and> (\<exists>tm \<in> set (terms example_function_mixed). \<exists>var < number_of_variables (added_term tm).
          change_of_variables (the_variable example_function_mixed (user_variables tm ! var))
            \<noteq> None)"
proof -
  from example_dense_mixed obtain F' where
    e: "evaluate_dense [5, 7] [99, 99] (Some []) example_function_mixed =
          (Inl ChangeOfVariablesNotSupportedForHessians, F', [4, 1], Some [[2, 0], [0, 0]])" ..
  let ?F1 = "prepare_evaluation [5, 7] example_function_mixed"
  from dense_hessian_failure_after_gradient [OF e]
  obtain val scratch storage H'' where
    all: "term_loop_dense True ?F1 [5, 7] (terms ?F1)
             (0, thread_gradient_scratch ?F1, thread_gradient_storage ?F1)
           = Inr (val, scratch, storage, terms F')
      \<and> length (terms F') = length (terms example_function_mixed)
      \<and> terms_evaluated ?F1 [5, 7] (terms example_function_mixed)
               (0, thread_gradient_scratch ?F1, thread_gradient_storage ?F1)
               (val, scratch, storage, terms F')
      \<and> set (thread_gradient_storage ?F1) \<subseteq> {0}
      \<and> [4, 1] = map2 (+) (replicate (number_of_scalars example_function_mixed) 0) storage
      \<and> scatter_dense F' (terms F')
               (replicate (number_of_scalars example_function_mixed)
                  (replicate (number_of_scalars example_function_mixed) 0))
             = (Some ChangeOfVariablesNotSupportedForHessians, H'')
      \<and> Some [[2, 0], [0, 0]] = Some H''
      \<and> (\<exists>tm \<in> set (terms example_function_mixed).
                \<exists>var < number_of_variables (added_term tm).
                  change_of_variables
                    (the_variable example_function_mixed (user_variables tm ! var)) \<noteq> None)"
    by (elim exE) (rule that)
  from all have loop: "term_loop_dense True ?F1 [5, 7] (terms ?F1)
             (0, thread_gradient_scratch ?F1, thread_gradient_storage ?F1)
           = Inr (val, scratch, storage, terms F')"
    by (elim conjE)
  from all have len: "length (terms F') = length (terms example_function_mixed)"
    by (elim conjE)
  from all have ev: "terms_evaluated ?F1 [5, 7] (terms example_function_mixed)
               (0, thread_gradient_scratch ?F1, thread_gradient_storage ?F1)
               (val, scratch, storage, terms F')"
    by (elim conjE)
  from all have gr:
    "[4, 1] = map2 (+) (replicate (number_of_scalars example_function_mixed) 0) storage"
    by (elim conjE)
  from all have cov: "\<exists>tm \<in> set (terms example_function_mixed).
                \<exists>var < number_of_variables (added_term tm).
                  change_of_variables
                    (the_variable example_function_mixed (user_variables tm ! var)) \<noteq> None"
    by (elim conjE)
  have n: "number_of_scalars example_function_mixed = 2"
    "length (terms example_function_mixed) = 2"
    by (simp_all add: example_function_mixed_def Function_new_def)
  have zero: "thread_gradient_storage ?F1 = [0, 0]"
    by (simp add: evaluation_defs example_function_mixed_def Function_new_def eval_nat_numeral)
  from loop have computed: "val = 9 \<and> storage = [4, 1]"
    by (simp add: evaluation_defs example_function_mixed_def Function_new_def example_term_def
        quadratic_term_def example_change_of_variables_def eval_nat_numeral)
  from gr n have gr': "[4, 1] = map2 (+) [0, 0] storage"
    by (simp add: eval_nat_numeral)
  from len n have len': "length (terms F') = 2"
    by simp
  from computed have v: "val = 9" and st: "storage = [4, 1]"
    by simp_all
  have ne: "[4, 1] \<noteq> [99, 99::real]"
    by simp
  show ?thesis
    by (intro exI [of _ F'] exI [of _ val] exI [of _ scratch] exI [of _ storage] conjI)
       (fact e ev zero len' v st gr' ne cov)+
qed

text \<open>
  The exception is not what every such call ends with. With a change of variables
  from one solver scalar to two user scalars the matrix has two rows and columns, and
  the scatter of the block of the plain variable against the changed one, which comes
  before the test of the changed one, addresses column 2.
\<close>

lemma example_dense_circle:
  "\<exists>F' gradient' H'. evaluate_dense [5, 0] [99, 99] (Some []) example_function_circle =
     (Inl HessianAccessOutOfBounds, F', gradient', H')"
  by (simp add: evaluation_defs example_function_circle_def Function_new_def sum_term_def
      circle_change_of_variables_def eval_nat_numeral)

section \<open>Function: the sparse Hessian stays inside the pattern\<close>

lemma add_triplet_positions:
  "fst ` set (add_triplet t stored) = insert (triplet_position t) (fst ` set stored)"
proof (induction stored)
  case Nil
  then show ?case by (cases t) (simp add: triplet_position_def)
next
  case (Cons entry stored)
  obtain r c v where t: "t = (r, c, v)" by (cases t)
  obtain position w where entry: "entry = (position, w)" by (cases entry)
  from Cons show ?case
    unfolding t entry by (auto simp add: triplet_position_def)
qed

lemma fold_add_triplet_positions:
  "fst ` set (fold add_triplet indices stored)
     = fst ` set stored \<union> triplet_position ` set indices"
  by (induction indices arbitrary: stored) (auto simp add: add_triplet_positions)

lemma structural_nonzeros_setFromTriplets:
  "structural_nonzeros (setFromTriplets indices M) = set (map triplet_position indices)"
  by (simp add: structural_nonzeros_def setFromTriplets_def fold_add_triplet_positions)

lemma pattern_triplets_positions:
  "map triplet_position (pattern_triplets F)
     = concat (map (\<lambda>tm. term_positions (\<lambda>k. global_index (the_variable F k))
                             (added_term tm) (user_variables tm)) (terms F))"
  by (simp add: pattern_triplets_def term_positions_def map_concat comp_def triplet_position_def)

lemma hessian_triplets_positions:
  "map triplet_position (hessian_triplets F)
     = concat (map (\<lambda>tm. term_positions (\<lambda>k. global_index (the_variable F k))
                             (added_term tm) (user_variables tm)) (terms F))"
  by (simp add: hessian_triplets_def term_positions_def map_concat comp_def triplet_position_def)

lemma term_loop_sparse_terms:
  "term_loop_sparse F tms acc = Inr (val, scratch, storage, tms') \<Longrightarrow>
   map added_term tms' = map added_term tms \<and> map user_variables tms' = map user_variables tms"
proof (induction tms arbitrary: acc val scratch storage tms')
  case Nil
  then show ?case by (cases acc) auto
next
  case (Cons tm tms)
  obtain val0 scratch0 storage0 where acc: "acc = (val0, scratch0, storage0)"
    by (cases acc)
  from Cons.prems Cons.IH show ?case
    unfolding acc
    by (fastforce split: sum.splits prod.splits)
qed

lemma positions_zip:
  "map (\<lambda>tm. term_positions offset (added_term tm) (user_variables tm)) (tms :: 'k AddedTerm list)
     = map (\<lambda>(t, a). term_positions offset t a) (zip (map added_term tms) (map user_variables tms))"
  by (induction tms) simp_all

lemma positions_cong:
  assumes "map added_term (tms' :: 'k AddedTerm list) = map added_term (tms :: 'k AddedTerm list)"
    and "map user_variables tms' = map user_variables tms"
  shows "map (\<lambda>tm. term_positions offset (added_term tm) (user_variables tm)) tms'
       = map (\<lambda>tm. term_positions offset (added_term tm) (user_variables tm)) tms"
  by (simp only: positions_zip assms)

text \<open>
  Claim C7. For every \<open>Function\<close> and every \<open>x\<close> for which the sparse
  \<open>evaluate(x, gradient, sparse_hessian)\<close> returns (which it only does when no
  argument has a change of variables), every position at which the resulting matrix
  stores a coefficient is a position stored in the pattern matrix that
  \<open>create_sparse_hessian\<close> builds for the same \<open>Function\<close>.
\<close>

theorem sparse_hessian_within_pattern:
  assumes "evaluate_sparse x gradient (Some H0) F = (Inr val, F', gradient', Some H)"
  shows "structural_nonzeros H \<subseteq> structural_nonzeros (snd (create_sparse_hessian P F))"
proof -
  let ?F1 = "(prepare_evaluation x F)\<lparr>number_of_hessian_elements := 0\<rparr>"
  let ?loop = "term_loop_sparse ?F1 (terms ?F1)
                 (0, thread_gradient_scratch ?F1, thread_gradient_storage ?F1)"
  have enabled: "hessian_is_enabled F"
  proof (rule ccontr)
    assume "\<not> hessian_is_enabled F"
    with assms show False by (simp add: evaluate_sparse_def)
  qed
  obtain v scratch storage terms' where loop: "?loop = Inr (v, scratch, storage, terms')"
    using assms enabled
    by (cases ?loop) (auto simp add: evaluate_sparse_def Let_def)
  let ?F2 = "?F1\<lparr>terms := terms', thread_gradient_scratch := scratch,
                   thread_gradient_storage := storage\<rparr>"
  have H: "H = setFromTriplets (hessian_triplets ?F2) H0"
    using assms enabled loop by (simp add: evaluate_sparse_def Let_def)
  have same: "map added_term terms' = map added_term (terms F)
            \<and> map user_variables terms' = map user_variables (terms F)"
    using term_loop_sparse_terms [OF loop] by (simp add: prepare_evaluation_terms)
  have offset: "global_index (the_variable ?F2 k) = global_index (the_variable F k)" for k
  proof -
    have "the_variable ?F2 k = the_variable (prepare_evaluation x F) k"
      by (simp add: the_variable_def find_variable_def)
    then show ?thesis by (simp add: prepare_evaluation_global_index)
  qed
  have "map triplet_position (hessian_triplets ?F2)
      = map triplet_position (pattern_triplets F)"
    unfolding hessian_triplets_positions pattern_triplets_positions
    using positions_cong [of terms' "terms F"] same
    by (simp add: offset)
  then show ?thesis
    by (simp add: H create_sparse_hessian_def Let_def structural_nonzeros_setFromTriplets)
qed

lemma example_sparse_plain:
  "\<exists>F'. evaluate_sparse [3] [99] (Some example_sparse_matrix) example_function_plain =
     (Inr 1, F', [1], Some (example_sparse_matrix\<lparr>coefficients := [((0, 0), 0)]\<rparr>))"
  by (simp add: evaluate_sparse_def evaluation_defs hessian_triplets_def setFromTriplets_def
      example_function_plain_def Function_new_def example_term_def example_sparse_matrix_def)

text \<open>
  One scalar variable and the term \<open>c(x) = x - 2\<close>: the numeric Hessian stores
  position \<open>(0, 0)\<close> (with the value 0), and so does the pattern.
\<close>

theorem sparse_hessian_within_pattern_witness:
  "\<exists>F'. evaluate_sparse [3] [99] (Some example_sparse_matrix) example_function_plain =
          (Inr 1, F', [1], Some (example_sparse_matrix\<lparr>coefficients := [((0, 0), 0)]\<rparr>))
    \<and> structural_nonzeros (example_sparse_matrix\<lparr>coefficients := [((0, 0), 0)]\<rparr>) = {(0, 0)}
    \<and> {(0, 0)} \<subseteq> structural_nonzeros
                      (snd (create_sparse_hessian example_sparse_matrix example_function_plain))"
proof -
  from example_sparse_plain obtain F' where
    e: "evaluate_sparse [3] [99] (Some example_sparse_matrix) example_function_plain =
          (Inr 1, F', [1], Some (example_sparse_matrix\<lparr>coefficients := [((0, 0), 0)]\<rparr>))" ..
  have n: "structural_nonzeros (example_sparse_matrix\<lparr>coefficients := [((0, 0), 0)]\<rparr>) = {(0, 0)}"
    by (simp add: structural_nonzeros_def)
  from sparse_hessian_within_pattern [OF e, of example_sparse_matrix] e n show ?thesis
    by auto
qed

section \<open>Comparisons of doubles\<close>

lemma not_greater_iff: "\<not> dless (Fin e) d \<longleftrightarrow> dle d (Fin e) \<or> d = NaN"
  by (cases d) auto

lemma dless_not_dle: "dless a b \<Longrightarrow> \<not> dle b a"
  by (cases a; cases b) simp_all

lemma dmax_not_NaN: "a \<noteq> NaN \<Longrightarrow> dmax a b \<noteq> NaN"
  by (cases a; cases b) (simp_all add: dmax_def)

section \<open>ConstrainedFunction: unfolding the loop once\<close>

lemma solve_loop_unfold:
  "solve_loop solver cf iterations st =
     (case solve_iteration solver cf st of
        Inl e \<Rightarrow> Inl e
      | Inr (Some ec, st') \<Rightarrow> Inr st'
      | Inr (None, st') \<Rightarrow>
          if iterations + 1 \<ge> max_number_of_iterations cf
          then Inr (st'\<lparr>results := (results st')\<lparr>exit_condition := NO_CONVERGENCE\<rparr>\<rparr>)
          else solve_loop solver cf (iterations + 1) (st'\<lparr>f_prev := f_value st'\<rparr>))"
  by (rule solve_loop.simps)

declare solve_loop.simps [simp del]

section \<open>ConstrainedFunction: the example\<close>

lemma evaluate_user_objective:
  "evaluate_user user example_objective = Inr (Fin ((user 0 ! 0 - 3)\<^sup>2))"
  by (simp add: evaluate_user_def evaluate_from_local_storage_def copy_user_to_local_def
      copy_loop_def temp_variables_def the_variable_def find_variable_def
      example_objective_def example_variable_def Function_new_def quadratic_term_def)

lemma evaluate_user_constraint:
  "evaluate_user user (example_constraint l c) = Inr (Fin (user 0 ! 0 - 2))"
  by (simp add: evaluate_user_def evaluate_from_local_storage_def copy_user_to_local_def
      copy_loop_def temp_variables_def the_variable_def find_variable_def
      example_constraint_def example_variable_def example_term_def)

lemma evaluate_user_root_constraint:
  "evaluate_user user (root_constraint\<lparr>lambda := l, cached_value := c\<rparr>)
     = Inr (if user 0 ! 0 < 0 then NaN else Fin (sqrt (user 0 ! 0) - 2))"
  by (simp add: evaluate_user_def evaluate_from_local_storage_def copy_user_to_local_def
      copy_loop_def temp_variables_def the_variable_def find_variable_def
      root_constraint_def example_variable_def root_term_def)

lemma evaluate_user_root:
  "evaluate_user user root_constraint
     = Inr (if user 0 ! 0 < 0 then NaN else Fin (sqrt (user 0 ! 0) - 2))"
  by (simp add: evaluate_user_def evaluate_from_local_storage_def copy_user_to_local_def
      copy_loop_def temp_variables_def the_variable_def find_variable_def
      root_constraint_def example_variable_def root_term_def)

lemma example_constraint_simps:
  "lambda (example_constraint l c) = l"
  "cached_value (example_constraint l c) = c"
  "(example_constraint l c)\<lparr>cached_value := c'\<rparr> = example_constraint l c'"
  "(example_constraint l c)\<lparr>lambda := l'\<rparr> = example_constraint l' c"
  by (simp_all add: example_constraint_def)

lemma nu_below_one: "1 \<le> m \<Longrightarrow> 1 / (m powr (1 / 10)) \<le> (1::real)"
  by (simp add: ge_one_powr_ge_zero)

lemma example_locals_simps:
  "(example_locals m l c x r calls n fp f infeas viol)\<lparr>f_prev := fp'\<rparr>
     = example_locals m l c x r calls n fp' f infeas viol"
  "(example_locals m l c x r calls n fp f infeas viol)\<lparr>results := r'\<rparr>
     = example_locals m l c x r' calls n fp f infeas viol"
  "f_value (example_locals m l c x r calls n fp f infeas viol) = f"
  "results (example_locals m l c x r calls n fp f infeas viol) = r"
  by (simp_all add: example_locals_def)

lemma example_start:
  "\<lparr> solve_impl = (impl example_constrained_function)\<lparr>mu := 10\<rparr>, solve_user = example_user,
     results = r, solver_calls = 0,
     nu = 1 / (10 powr (1 / 10)), f_prev = NaN, f_value = Fin 0,
     infeasibility = MInf, max_violation = Fin 0 \<rparr>
   = example_locals 10 (Fin 0) (Fin 0) 4 r 0 (1 / (10 powr (1 / 10))) NaN (Fin 0) MInf (Fin 0)"
  by (auto simp add: example_locals_def example_constrained_function_def
      example_implementation_def example_user_def)

lemma example_has_variables:
  "get_number_of_variables (augmented_lagrangian (impl example_constrained_function)) \<noteq> 0"
  by (simp add: get_number_of_variables_def example_constrained_function_def
      example_implementation_def example_objective_def Function_new_def)

lemma example_max_number_of_iterations:
  "max_number_of_iterations example_constrained_function = 3"
  by (simp add: example_constrained_function_def)

lemmas example_pass_defs =
  solve_iteration_def example_locals_def example_implementation_def
  example_constrained_function_def evaluate_user_objective evaluate_user_constraint
  function_tolerance_test_def dual_tolerance_test_def dmax_def Let_def example_constraint_simps

lemma stuck_pass_1:
  "solve_iteration stuck_solver example_constrained_function
      (example_locals 10 (Fin 0) (Fin 0) 4 r calls (1 / (10 powr (1 / 10))) NaN (Fin 0) MInf (Fin 0))
   = Inr (None, example_locals 1000 (Fin 0) (Fin 3) 5 \<lparr>exit_condition = GRADIENT_TOLERANCE\<rparr>
                  (calls + 1) (1 / (1000 powr (1 / 10))) NaN (Fin 4) (Fin 0) (Fin 3))"
proof -
  have "1 / (10 powr (1 / 10)) \<le> (1::real)"
    by (rule nu_below_one) simp
  then have "\<not> (3::real) \<le> 1 / (10 powr (1 / 10))"
    by linarith
  then show ?thesis
    by (simp add: example_pass_defs stuck_solver_def)
qed

lemma stuck_pass_2:
  "solve_iteration stuck_solver example_constrained_function
      (example_locals 1000 (Fin 0) (Fin 3) 5 r calls (1 / (1000 powr (1 / 10))) (Fin 4) (Fin 4)
         (Fin 0) (Fin 3))
   = Inr (Some FUNCTION_TOLERANCE,
          example_locals 1000 (Fin 0) (Fin 3) 5 \<lparr>exit_condition = FUNCTION_TOLERANCE\<rparr> (calls + 1)
                  (1 / (1000 powr (1 / 10))) (Fin 4) (Fin 4) (Fin 0) (Fin 3))"
  by (simp add: example_pass_defs stuck_solver_def)

lemma stuck_run:
  "solve stuck_solver example_constrained_function example_user \<lparr>exit_condition = ARGUMENT_TOLERANCE\<rparr>
   = Inr (solve_state.truncate
            (example_locals 1000 (Fin 0) (Fin 3) 5 \<lparr>exit_condition = FUNCTION_TOLERANCE\<rparr> 2
                  (1 / (1000 powr (1 / 10))) (Fin 4) (Fin 4) (Fin 0) (Fin 3)))"
  unfolding solve_def example_start
  by (simp add: example_has_variables example_max_number_of_iterations
      solve_loop_unfold [of _ _ 0] solve_loop_unfold [of _ _ 1]
      stuck_pass_1 stuck_pass_2 example_locals_simps numeral_2_eq_2)

lemma failing_pass_1:
  "solve_iteration failing_solver example_constrained_function
      (example_locals 10 (Fin 0) (Fin 0) 4 r calls (1 / (10 powr (1 / 10))) NaN (Fin 0) MInf (Fin 0))
   = Inr (None, example_locals 1000 (Fin 0) (Fin 3) 5 \<lparr>exit_condition = INTERNAL_ERROR\<rparr>
                  (calls + 1) (1 / (1000 powr (1 / 10))) NaN (Fin 4) (Fin 0) (Fin 3))"
proof -
  have "1 / (10 powr (1 / 10)) \<le> (1::real)"
    by (rule nu_below_one) simp
  then have "\<not> (3::real) \<le> 1 / (10 powr (1 / 10))"
    by linarith
  then show ?thesis
    by (simp add: example_pass_defs failing_solver_def)
qed

lemma failing_pass_2:
  "solve_iteration failing_solver example_constrained_function
      (example_locals 1000 (Fin 0) (Fin 3) 5 r calls (1 / (1000 powr (1 / 10))) (Fin 4) (Fin 4)
         (Fin 0) (Fin 3))
   = Inr (None, example_locals 100000 (Fin 0) (Fin 4) 6 \<lparr>exit_condition = INTERNAL_ERROR\<rparr>
                  (calls + 1) (1 / (100000 powr (1 / 10))) (Fin 4) (Fin 9) (Fin 0) (Fin 4))"
proof -
  have "1 / (1000 powr (1 / 10)) \<le> (1::real)"
    by (rule nu_below_one) simp
  then have "\<not> (4::real) \<le> 1 / (1000 powr (1 / 10))"
    by linarith
  then show ?thesis
    by (simp add: example_pass_defs failing_solver_def)
qed

lemma failing_pass_3:
  "solve_iteration failing_solver example_constrained_function
      (example_locals 100000 (Fin 0) (Fin 4) 6 r calls (1 / (100000 powr (1 / 10))) (Fin 9) (Fin 9)
         (Fin 0) (Fin 4))
   = Inr (None, example_locals 10000000 (Fin 0) (Fin 5) 7 \<lparr>exit_condition = INTERNAL_ERROR\<rparr>
                  (calls + 1) (1 / (10000000 powr (1 / 10))) (Fin 9) (Fin 16) (Fin 0) (Fin 5))"
proof -
  have "1 / (100000 powr (1 / 10)) \<le> (1::real)"
    by (rule nu_below_one) simp
  then have "\<not> (5::real) \<le> 1 / (100000 powr (1 / 10))"
    by linarith
  then show ?thesis
    by (simp add: example_pass_defs failing_solver_def)
qed

lemma failing_run:
  "solve failing_solver example_constrained_function example_user \<lparr>exit_condition = ARGUMENT_TOLERANCE\<rparr>
   = Inr (solve_state.truncate
            (example_locals 10000000 (Fin 0) (Fin 5) 7 \<lparr>exit_condition = NO_CONVERGENCE\<rparr> 3
                  (1 / (10000000 powr (1 / 10))) (Fin 9) (Fin 16) (Fin 0) (Fin 5)))"
  unfolding solve_def example_start
  by (simp add: example_has_variables example_max_number_of_iterations
      solve_loop_unfold [of _ _ 0] solve_loop_unfold [of _ _ 1] solve_loop_unfold [of _ _ 2]
      failing_pass_1 failing_pass_2 failing_pass_3 example_locals_simps numeral_3_eq_3)

lemma root_constraint_lambda: "lambda root_constraint = Fin 0"
  by (simp add: root_constraint_def)

lemma root_has_variables:
  "get_number_of_variables (augmented_lagrangian (impl root_constrained_function)) \<noteq> 0"
  by (simp add: get_number_of_variables_def root_constrained_function_def
      example_implementation_def example_objective_def Function_new_def)

lemma root_pass:
  "solve_iteration negative_solver root_constrained_function
     \<lparr> solve_impl = (impl root_constrained_function)\<lparr>mu := 10\<rparr>, solve_user = example_user,
       results = r, solver_calls = 0,
       nu = 1 / (10 powr (1 / 10)), f_prev = NaN, f_value = Fin 0,
       infeasibility = MInf, max_violation = Fin 0 \<rparr>
   = Inr (Some GRADIENT_TOLERANCE, root_final)"
  by (simp add: solve_iteration_def Let_def root_final_def root_constrained_function_def
      example_constrained_function_def example_implementation_def
      evaluate_user_objective evaluate_user_root negative_solver_def
      function_tolerance_test_def dual_tolerance_test_def dmax_def update_lambda_def
      root_constraint_lambda)

lemma root_run:
  "solve negative_solver root_constrained_function example_user r
   = Inr (solve_state.truncate root_final)"
  by (simp add: solve_def root_has_variables solve_loop_unfold [of _ _ 0] root_pass)

section \<open>ConstrainedFunction: feasibility\<close>

text \<open>
  Claim C8 says that \<open>is_feasible()\<close> returns true if and only if every constraint's
  value is at most \<open>10\<^sup>-\<^sup>1\<^sup>2\<close>. With the single constraint \<open>sqrt(x) - 2 \<le> 0\<close> and
  \<open>x = -1\<close> in the user's memory the value of the constraint is NaN, which is not at
  most \<open>10\<^sup>-\<^sup>1\<^sup>2\<close>, and \<open>is_feasible()\<close> returns true: the source tests
  \<open>c_x > 1e-12\<close>, which is false for NaN.
\<close>

theorem is_feasible_counterexample:
  "constraints (impl root_constrained_function) = [(''root of x at most 2'', root_constraint)]
   \<and> evaluate_user (\<lambda>variable. [- 1]) root_constraint = Inr NaN
   \<and> \<not> dle NaN (Fin (1 / 10 ^ 12))
   \<and> is_feasible (\<lambda>variable. [- 1]) root_constrained_function = Inr True"
proof -
  have c: "constraints (impl root_constrained_function)
             = [(''root of x at most 2'', root_constraint)]"
    by (simp add: root_constrained_function_def)
  have v: "evaluate_user (\<lambda>variable. [- 1]) root_constraint = Inr NaN"
    by (simp add: evaluate_user_root)
  from c v show ?thesis
    by (simp add: is_feasible_def)
qed

text \<open>
  Claim C8, amended. For every state of a \<open>ConstrainedFunction\<close> and of the user's
  memory, \<open>is_feasible()\<close> returns true if and only if every constraint evaluates, at
  the current user state, to a value that is at most \<open>10\<^sup>-\<^sup>1\<^sup>2\<close> or is NaN, that is,
  if and only if no constraint evaluates to a value greater than \<open>10\<^sup>-\<^sup>1\<^sup>2\<close>. (When
  the evaluation of a constraint throws, \<open>is_feasible()\<close> does not return.)
\<close>

theorem is_feasible_amended:
  "is_feasible user cf = Inr True \<longleftrightarrow>
     (\<forall>(name, c) \<in> set (constraints (impl cf)).
         \<exists>c_x. evaluate_user user c = Inr c_x \<and> (dle c_x (Fin (1 / 10 ^ 12)) \<or> c_x = NaN))"
proof -
  have "is_feasible_loop user cs = Inr True \<longleftrightarrow>
          (\<forall>(name, c) \<in> set cs.
              \<exists>c_x. evaluate_user user c = Inr c_x \<and> (dle c_x (Fin (1 / 10 ^ 12)) \<or> c_x = NaN))"
    for cs :: "(string \<times> 'a Constraint) list"
  proof (induction cs)
    case Nil
    then show ?case by simp
  next
    case (Cons entry cs)
    obtain name c where entry: "entry = (name, c)" by (cases entry)
    show ?case
    proof (cases "evaluate_user user c")
      case (Inl e)
      then show ?thesis by (simp add: entry)
    next
      case (Inr c_x)
      show ?thesis
      proof (cases "dless (Fin (1 / 10 ^ 12)) c_x")
        case True
        then have "\<not> (dle c_x (Fin (1 / 10 ^ 12)) \<or> c_x = NaN)"
          using not_greater_iff by blast
        with Inr True show ?thesis
          by (simp add: entry)
      next
        case False
        then have "dle c_x (Fin (1 / 10 ^ 12)) \<or> c_x = NaN"
          using not_greater_iff by blast
        with Inr False Cons.IH show ?thesis
          by (simp add: entry)
      qed
    qed
  qed
  then show ?thesis
    by (simp add: is_feasible_def)
qed

text \<open>
  With the constraint \<open>x - 2 \<le> 0\<close>: feasible at \<open>x = 1\<close> (value \<open>-1\<close>), not
  feasible at \<open>x = 4\<close> (value 2). With the constraint \<open>sqrt(x) - 2 \<le> 0\<close>: feasible
  at \<open>x = -1\<close> (value NaN).
\<close>

theorem is_feasible_amended_witness:
  "is_feasible (\<lambda>variable. [1]) example_constrained_function = Inr True
   \<and> evaluate_user (\<lambda>variable. [1]) (example_constraint (Fin 0) (Fin 0)) = Inr (Fin (- 1))
   \<and> dle (Fin (- 1)) (Fin (1 / 10 ^ 12))
   \<and> is_feasible (\<lambda>variable. [4]) example_constrained_function \<noteq> Inr True
   \<and> evaluate_user (\<lambda>variable. [4]) (example_constraint (Fin 0) (Fin 0)) = Inr (Fin 2)
   \<and> \<not> dle (Fin 2) (Fin (1 / 10 ^ 12)) \<and> Fin 2 \<noteq> NaN
   \<and> is_feasible (\<lambda>variable. [- 1]) root_constrained_function = Inr True
   \<and> evaluate_user (\<lambda>variable. [- 1]) root_constraint = Inr NaN"
proof -
  have cs: "constraints (impl example_constrained_function)
              = [(''x at most 2'', example_constraint (Fin 0) (Fin 0))]"
    by (simp add: example_constrained_function_def example_implementation_def)
  have rs: "constraints (impl root_constrained_function)
              = [(''root of x at most 2'', root_constraint)]"
    by (simp add: root_constrained_function_def)
  have v: "evaluate_user (\<lambda>variable. [- 1]) root_constraint = Inr NaN"
    by (simp add: evaluate_user_root)
  have a: "is_feasible (\<lambda>variable. [1]) example_constrained_function = Inr True"
    using is_feasible_amended [of "\<lambda>variable. [1]" example_constrained_function]
    by (simp add: cs evaluate_user_constraint)
  have b: "is_feasible (\<lambda>variable. [4]) example_constrained_function \<noteq> Inr True"
    using is_feasible_amended [of "\<lambda>variable. [4]" example_constrained_function]
    by (simp add: cs evaluate_user_constraint)
  have c: "is_feasible (\<lambda>variable. [- 1]) root_constrained_function = Inr True"
    using is_feasible_amended [of "\<lambda>variable. [- 1]" root_constrained_function]
    by (simp add: rs v)
  from a b c v show ?thesis
    by (simp add: evaluate_user_constraint)
qed

section \<open>ConstrainedFunction: the dual update\<close>

lemma update_duals_entries:
  "fst (update_duals \<mu> cs acc) = map (\<lambda>(name, c). (name, update_lambda \<mu> c)) cs"
proof (induction cs arbitrary: acc)
  case Nil
  then show ?case by (cases acc) simp
next
  case (Cons entry cs)
  obtain name c where entry: "entry = (name, c)" by (cases entry)
  obtain max_change max_lambda where acc: "acc = (max_change, max_lambda)" by (cases acc)
  from Cons.IH show ?case
    unfolding entry acc by (simp split: prod.splits) (metis fst_conv)
qed

lemma update_lambda_spec: "dual_update_spec \<mu> c (update_lambda \<mu> c)"
proof (cases "dle (dadd (cached_value c) (ddiv (lambda c) (Fin \<mu>))) (Fin 0)")
  case True
  then have "update_lambda \<mu> c = c\<lparr>lambda := Fin 0\<rparr>"
    by (simp add: update_lambda_def Let_def)
  moreover from True
  have "\<not> dless (Fin 0) (dadd (cached_value c) (ddiv (lambda c) (Fin \<mu>)))"
    using dless_not_dle by blast
  moreover from True have "dadd (cached_value c) (ddiv (lambda c) (Fin \<mu>)) \<noteq> NaN"
    by auto
  ultimately show ?thesis
    using True by (simp add: dual_update_spec_def)
next
  case False
  then have "update_lambda \<mu> c
               = c\<lparr>lambda := dadd (lambda c) (dmul (Fin \<mu>) (cached_value c))\<rparr>"
    by (simp add: update_lambda_def Let_def)
  with False show ?thesis
    by (simp add: dual_update_spec_def)
qed

text \<open>
  Claim C2 says that in the dual update a multiplier with \<open>c + lambda/mu > 0\<close>
  becomes \<open>lambda + mu c\<close> and that this is strictly greater than the old
  \<open>lambda\<close>, and that otherwise the new multiplier is 0. At \<open>mu = 10\<close>,
  \<open>lambda = 2\<close>, \<open>c = -1/10\<close> the condition holds (\<open>-1/10 + 2/10 > 0\<close>), the new
  multiplier is \<open>2 + 10 \<cdot> (-1/10) = 1\<close>, and 1 is not greater than 2: a constraint
  that has become slightly inactive lowers its multiplier. And at \<open>mu = 10\<close>,
  \<open>lambda = 2\<close> and a cached value that is NaN the condition does not hold, and the
  new multiplier is not 0 but NaN. The loop does get there: with the constraint
  \<open>sqrt(x) - 2 \<le> 0\<close> and a solver that leaves \<open>x = -1\<close>, the first iteration
  caches NaN, finds \<open>max_violation = max(0, NaN) = 0\<close> below \<open>nu\<close>, turns the
  multiplier 0 into NaN, and \<open>solve\<close> returns with it.
\<close>

theorem dual_update_counterexample:
  "dless (Fin 0) (dadd (cached_value (example_constraint (Fin 2) (Fin (- 1 / 10))))
                       (ddiv (lambda (example_constraint (Fin 2) (Fin (- 1 / 10)))) (Fin 10)))
   \<and> fst (update_duals 10 [(''x at most 2'', example_constraint (Fin 2) (Fin (- 1 / 10)))]
             (Fin 0, Fin 0))
       = [(''x at most 2'', example_constraint (Fin 1) (Fin (- 1 / 10)))]
   \<and> \<not> dless (lambda (example_constraint (Fin 2) (Fin (- 1 / 10))))
              (lambda (example_constraint (Fin 1) (Fin (- 1 / 10))))
   \<and> \<not> dless (Fin 0) (dadd (cached_value (example_constraint (Fin 2) NaN))
                         (ddiv (lambda (example_constraint (Fin 2) NaN)) (Fin 10)))
   \<and> fst (update_duals 10 [(''x at most 2'', example_constraint (Fin 2) NaN)] (Fin 0, Fin 0))
       = [(''x at most 2'', example_constraint NaN NaN)]
   \<and> lambda (example_constraint NaN NaN) \<noteq> Fin 0
   \<and> solve negative_solver root_constrained_function example_user
        \<lparr>exit_condition = ARGUMENT_TOLERANCE\<rparr>
       = Inr (solve_state.truncate root_final)
   \<and> map (\<lambda>(name, c). (cached_value c, lambda c)) (constraints (solve_impl root_final))
       = [(NaN, NaN)]
   \<and> map (\<lambda>(name, c). lambda c) (constraints (impl root_constrained_function)) = [Fin 0]"
  using root_run [of "\<lparr>exit_condition = ARGUMENT_TOLERANCE\<rparr>"]
  by (simp add: update_lambda_def example_constraint_def Let_def root_final_def
      root_constrained_function_def root_constraint_lambda)

text \<open>
  Claim C2, amended. In the dual update, for every constraint with cached value \<open>c\<close>
  and multiplier \<open>lambda\<close>, and penalty \<open>mu > 0\<close>, with \<open>c + lambda/mu\<close> as
  \<open>double\<close> computes it: if \<open>c + lambda/mu > 0\<close> the new \<open>lambda\<close> equals
  \<open>lambda + mu c\<close>; if \<open>c + lambda/mu \<le> 0\<close> the new \<open>lambda\<close> is 0; and if
  \<open>c + lambda/mu\<close> is NaN, when neither comparison holds, the new \<open>lambda\<close> is
  again \<open>lambda + mu c\<close>. The names and the cached values of the constraints do not
  change.
\<close>

theorem dual_update_amended:
  assumes "0 < \<mu>" and "update_duals \<mu> cs acc = (cs', max_change, max_lambda)"
  shows "map fst cs' = map fst cs
       \<and> (\<forall>n < length cs. cached_value (snd (cs' ! n)) = cached_value (snd (cs ! n))
                          \<and> dual_update_spec \<mu> (snd (cs ! n)) (snd (cs' ! n)))"
proof -
  have cs': "cs' = map (\<lambda>(name, c). (name, update_lambda \<mu> c)) cs"
    using update_duals_entries [of \<mu> cs acc] assms(2) by simp
  have names: "map fst cs' = map fst cs"
    unfolding cs' by (simp add: split_beta comp_def)
  have "cached_value (snd (cs' ! n)) = cached_value (snd (cs ! n))
        \<and> dual_update_spec \<mu> (snd (cs ! n)) (snd (cs' ! n))" if "n < length cs" for n
  proof -
    have "snd (cs' ! n) = update_lambda \<mu> (snd (cs ! n))"
      unfolding cs' using that by (simp add: split_beta)
    moreover have "cached_value (update_lambda \<mu> c) = cached_value c" for c :: "'a Constraint"
      by (simp add: update_lambda_def Let_def)
    ultimately show ?thesis
      by (simp add: update_lambda_spec)
  qed
  with names show ?thesis by blast
qed

text \<open>
  Four constraints with \<open>lambda = 2\<close> at \<open>mu = 10\<close>: \<open>c = -1/10\<close> gives 1,
  \<open>c = 1/10\<close> gives 3, \<open>c = -1\<close> gives 0, and \<open>c\<close> NaN gives NaN.
\<close>

theorem dual_update_amended_witness:
  "(0::real) < 10
   \<and> update_duals 10 [(''x at most 2'', example_constraint (Fin 2) (Fin (- 1 / 10))),
                       (''y at most 2'', example_constraint (Fin 2) (Fin (1 / 10))),
                       (''z at most 2'', example_constraint (Fin 2) (Fin (- 1))),
                       (''w at most 2'', example_constraint (Fin 2) NaN)] (Fin 0, Fin 0)
       = ([(''x at most 2'', example_constraint (Fin 1) (Fin (- 1 / 10))),
           (''y at most 2'', example_constraint (Fin 3) (Fin (1 / 10))),
           (''z at most 2'', example_constraint (Fin 0) (Fin (- 1))),
           (''w at most 2'', example_constraint NaN NaN)], Fin 2, Fin 3)
   \<and> dual_update_spec 10 (example_constraint (Fin 2) (Fin (- 1 / 10)))
                          (example_constraint (Fin 1) (Fin (- 1 / 10)))
   \<and> dual_update_spec 10 (example_constraint (Fin 2) (Fin (1 / 10)))
                          (example_constraint (Fin 3) (Fin (1 / 10)))
   \<and> dual_update_spec 10 (example_constraint (Fin 2) (Fin (- 1)))
                          (example_constraint (Fin 0) (Fin (- 1)))
   \<and> dual_update_spec 10 (example_constraint (Fin 2) NaN) (example_constraint NaN NaN)"
proof -
  let ?cs = "[(''x at most 2'', example_constraint (Fin 2) (Fin (- 1 / 10))),
              (''y at most 2'', example_constraint (Fin 2) (Fin (1 / 10))),
              (''z at most 2'', example_constraint (Fin 2) (Fin (- 1))),
              (''w at most 2'', example_constraint (Fin 2) NaN)]"
  let ?cs' = "[(''x at most 2'', example_constraint (Fin 1) (Fin (- 1 / 10))),
               (''y at most 2'', example_constraint (Fin 3) (Fin (1 / 10))),
               (''z at most 2'', example_constraint (Fin 0) (Fin (- 1))),
               (''w at most 2'', example_constraint NaN NaN)]"
  have positive: "(0::real) < 10" by simp
  have run: "update_duals 10 ?cs (Fin 0, Fin 0) = (?cs', Fin 2, Fin 3)"
    by (simp add: update_lambda_def example_constraint_def Let_def dmax_def)
  from dual_update_amended [OF positive run]
  have "\<forall>n<4. dual_update_spec 10 (snd (?cs ! n)) (snd (?cs' ! n))"
    by simp
  then have "dual_update_spec 10 (example_constraint (Fin 2) (Fin (- 1 / 10)))
                          (example_constraint (Fin 1) (Fin (- 1 / 10)))
   \<and> dual_update_spec 10 (example_constraint (Fin 2) (Fin (1 / 10)))
                          (example_constraint (Fin 3) (Fin (1 / 10)))
   \<and> dual_update_spec 10 (example_constraint (Fin 2) (Fin (- 1)))
                          (example_constraint (Fin 0) (Fin (- 1)))
   \<and> dual_update_spec 10 (example_constraint (Fin 2) NaN) (example_constraint NaN NaN)"
    by (simp add: All_less_Suc eval_nat_numeral)
  with positive run show ?thesis by blast
qed

section \<open>ConstrainedFunction: one pass of the outer loop\<close>

lemma evaluate_constraints_lambdas:
  "evaluate_constraints user cs acc = Inr (cs', infeas', viol') \<Longrightarrow>
   map (\<lambda>(name, c). (name, lambda c)) cs' = map (\<lambda>(name, c). (name, lambda c)) cs"
proof (induction cs arbitrary: acc cs' infeas' viol')
  case Nil
  then show ?case by (cases acc) auto
next
  case (Cons entry cs)
  obtain name c where entry: "entry = (name, c)" by (cases entry)
  obtain infeas viol where acc: "acc = (infeas, viol)" by (cases acc)
  from Cons.prems Cons.IH show ?case
    unfolding entry acc by (fastforce split: sum.splits prod.splits)
qed

lemma function_tolerance_test_NaN: "\<not> function_tolerance_test f NaN tolerance"
  by (cases f) (simp_all add: function_tolerance_test_def)

text \<open>What one pass does to the state, case by case.\<close>

lemma solve_iteration_cases:
  assumes "solve_iteration solver cf st = Inr (stop, st')"
  obtains
    (function_tolerance) cs where
      "stop = Some FUNCTION_TOLERANCE"
      "function_tolerance_test (f_value st') (f_prev st) (function_improvement_tolerance cf)"
      "exit_condition (results st') = FUNCTION_TOLERANCE"
      "solve_impl st' = (solve_impl st)\<lparr>constraints := cs\<rparr>"
      "map (\<lambda>(name, c). (name, lambda c)) cs
         = map (\<lambda>(name, c). (name, lambda c)) (constraints (solve_impl st))"
      "nu st' = nu st"
  | (gradient_tolerance)
      "stop = Some GRADIENT_TOLERANCE"
      "\<not> function_tolerance_test (f_value st') (f_prev st) (function_improvement_tolerance cf)"
      "dle (max_violation st') (Fin (nu st))"
      "exit_condition (results st') = GRADIENT_TOLERANCE"
  | (dual_update)
      "stop = None"
      "\<not> function_tolerance_test (f_value st') (f_prev st) (function_improvement_tolerance cf)"
      "dle (max_violation st') (Fin (nu st))"
  | (penalty_update) cs where
      "stop = None"
      "\<not> function_tolerance_test (f_value st') (f_prev st) (function_improvement_tolerance cf)"
      "\<not> dle (max_violation st') (Fin (nu st))"
      "solve_impl st' = (solve_impl st)\<lparr>constraints := cs, mu := mu (solve_impl st) * 100\<rparr>"
      "map (\<lambda>(name, c). (name, lambda c)) cs
         = map (\<lambda>(name, c). (name, lambda c)) (constraints (solve_impl st))"
      "nu st' = 1 / ((mu (solve_impl st) * 100) powr (1 / 10))"
proof -
  obtain user' results' where s: "solver (solve_impl st) (solve_user st) = (user', results')"
    by (cases "solver (solve_impl st) (solve_user st)")
  from assms s obtain f where f: "evaluate_user user' (objective (solve_impl st)) = Inr f"
    by (cases "evaluate_user user' (objective (solve_impl st))")
       (auto simp add: solve_iteration_def)
  from assms s f obtain cs infeas viol where
    cs: "evaluate_constraints user' (constraints (solve_impl st)) (MInf, Fin 0)
           = Inr (cs, infeas, viol)"
    by (cases "evaluate_constraints user' (constraints (solve_impl st)) (MInf, Fin 0)")
       (auto simp add: solve_iteration_def)
  note lam = evaluate_constraints_lambdas [OF cs]
  show thesis
  proof (cases "function_tolerance_test f (f_prev st) (function_improvement_tolerance cf)")
    case True
    with assms s f cs lam show thesis
      by (intro function_tolerance [of cs]) (auto simp add: solve_iteration_def Let_def)
  next
    case ft: False
    show thesis
    proof (cases "dle viol (Fin (nu st))")
      case True
      obtain cs' max_change max_lambda where
        d: "update_duals (mu (solve_impl st)) cs (Fin 0, Fin 0) = (cs', max_change, max_lambda)"
        by (cases "update_duals (mu (solve_impl st)) cs (Fin 0, Fin 0)")
      show thesis
      proof (cases "dual_tolerance_test max_change max_lambda (dual_change_tolerance cf) viol")
        case gt: True
        with assms s f cs ft True d show thesis
          by (intro gradient_tolerance) (auto simp add: solve_iteration_def Let_def)
      next
        case False
        with assms s f cs ft True d show thesis
          by (intro dual_update) (auto simp add: solve_iteration_def Let_def)
      qed
    next
      case False
      with assms s f cs ft lam show thesis
        by (intro penalty_update [of cs]) (auto simp add: solve_iteration_def Let_def)
    qed
  qed
qed

lemma solve_iteration_calls:
  assumes "solve_iteration solver cf st = Inr (stop, st')"
  shows "solver_calls st' = solver_calls st + 1"
  using assms
  by (auto simp add: solve_iteration_def Let_def split: prod.splits sum.splits if_splits)

text \<open>
  Claim C6 says that in every outer iteration of \<open>solve\<close> in which
  \<open>max_violation > nu\<close>, \<open>mu\<close> is multiplied by 100 and \<open>nu\<close> is reset. In the
  run of the example with the solver stuck at \<open>x = 5\<close>, the second iteration has
  \<open>max_violation = 3\<close>, above \<open>nu = 1000\<^sup>-\<^sup>0\<^sup>.\<^sup>1\<close>, but the objective is what it
  was in the first iteration, so the function-tolerance test, which comes before the
  test of \<open>max_violation\<close>, leaves the loop: \<open>mu\<close> is 1000 before and after the
  iteration, \<open>nu\<close> is unchanged, and \<open>solve\<close> returns with them.
\<close>

theorem penalty_branch_counterexample:
  "solve_iteration stuck_solver example_constrained_function
      (example_locals 1000 (Fin 0) (Fin 3) 5 \<lparr>exit_condition = GRADIENT_TOLERANCE\<rparr> 1
         (1 / (1000 powr (1 / 10))) (Fin 4) (Fin 4) (Fin 0) (Fin 3))
     = Inr (Some FUNCTION_TOLERANCE,
            example_locals 1000 (Fin 0) (Fin 3) 5 \<lparr>exit_condition = FUNCTION_TOLERANCE\<rparr> 2
              (1 / (1000 powr (1 / 10))) (Fin 4) (Fin 4) (Fin 0) (Fin 3))
   \<and> dless (Fin (nu (example_locals 1000 (Fin 0) (Fin 3) 5 \<lparr>exit_condition = GRADIENT_TOLERANCE\<rparr> 1
                        (1 / (1000 powr (1 / 10))) (Fin 4) (Fin 4) (Fin 0) (Fin 3))))
            (max_violation
               (example_locals 1000 (Fin 0) (Fin 3) 5 \<lparr>exit_condition = FUNCTION_TOLERANCE\<rparr> 2
                  (1 / (1000 powr (1 / 10))) (Fin 4) (Fin 4) (Fin 0) (Fin 3)))
   \<and> mu (solve_impl
             (example_locals 1000 (Fin 0) (Fin 3) 5 \<lparr>exit_condition = GRADIENT_TOLERANCE\<rparr> 1
                (1 / (1000 powr (1 / 10))) (Fin 4) (Fin 4) (Fin 0) (Fin 3))) = 1000
   \<and> mu (solve_impl
             (example_locals 1000 (Fin 0) (Fin 3) 5 \<lparr>exit_condition = FUNCTION_TOLERANCE\<rparr> 2
                (1 / (1000 powr (1 / 10))) (Fin 4) (Fin 4) (Fin 0) (Fin 3))) = 1000
   \<and> (1000::real) \<noteq> 1000 * 100
   \<and> solve stuck_solver example_constrained_function example_user
        \<lparr>exit_condition = ARGUMENT_TOLERANCE\<rparr>
       = Inr (solve_state.truncate
                (example_locals 1000 (Fin 0) (Fin 3) 5 \<lparr>exit_condition = FUNCTION_TOLERANCE\<rparr> 2
                   (1 / (1000 powr (1 / 10))) (Fin 4) (Fin 4) (Fin 0) (Fin 3)))"
proof -
  have pass: "solve_iteration stuck_solver example_constrained_function
      (example_locals 1000 (Fin 0) (Fin 3) 5 \<lparr>exit_condition = GRADIENT_TOLERANCE\<rparr> 1
         (1 / (1000 powr (1 / 10))) (Fin 4) (Fin 4) (Fin 0) (Fin 3))
     = Inr (Some FUNCTION_TOLERANCE,
            example_locals 1000 (Fin 0) (Fin 3) 5 \<lparr>exit_condition = FUNCTION_TOLERANCE\<rparr> 2
              (1 / (1000 powr (1 / 10))) (Fin 4) (Fin 4) (Fin 0) (Fin 3))"
    using stuck_pass_2 [of "\<lparr>exit_condition = GRADIENT_TOLERANCE\<rparr>" 1]
    by (simp add: numeral_2_eq_2)
  have "1 / (1000 powr (1 / 10)) \<le> (1::real)"
    by (rule nu_below_one) simp
  then have above: "1 / (1000 powr (1 / 10)) < (3::real)"
    by linarith
  from pass above stuck_run show ?thesis
    by (simp add: example_locals_def example_implementation_def)
qed

text \<open>
  Claim C6, amended. In every outer iteration of \<open>solve\<close> in which
  \<open>max_violation > nu\<close>, no constraint's \<open>lambda\<close> is modified. If the
  function-tolerance test of that iteration holds, the loop ends there with
  \<open>FUNCTION_TOLERANCE\<close> and neither \<open>mu\<close> nor \<open>nu\<close> changes. Otherwise the
  iteration takes the violation-too-large branch: the loop goes on, \<open>mu\<close> is
  multiplied by 100 and \<open>nu\<close> becomes \<open>1 / mu\<^sup>0\<^sup>.\<^sup>1 = mu\<^sup>-\<^sup>0\<^sup>.\<^sup>1\<close> with the new \<open>mu\<close>.
\<close>

theorem penalty_branch_amended:
  assumes "solve_iteration solver cf st = Inr (stop, st')"
    and "dless (Fin (nu st)) (max_violation st')"
  shows "map (\<lambda>(name, c). (name, lambda c)) (constraints (solve_impl st'))
           = map (\<lambda>(name, c). (name, lambda c)) (constraints (solve_impl st))
       \<and> (if function_tolerance_test (f_value st') (f_prev st) (function_improvement_tolerance cf)
          then stop = Some FUNCTION_TOLERANCE
             \<and> mu (solve_impl st') = mu (solve_impl st)
             \<and> nu st' = nu st
          else stop = None
             \<and> mu (solve_impl st') = mu (solve_impl st) * 100
             \<and> nu st' = 1 / (mu (solve_impl st') powr (1 / 10))
             \<and> nu st' = mu (solve_impl st') powr (- (1 / 10)))"
proof -
  from assms(2) have above: "\<not> dle (max_violation st') (Fin (nu st))"
    by (rule dless_not_dle)
  from assms(1) show ?thesis
  proof (cases rule: solve_iteration_cases)
    case (function_tolerance cs)
    then show ?thesis by simp
  next
    case gradient_tolerance
    with above show ?thesis by simp
  next
    case dual_update
    with above show ?thesis by simp
  next
    case (penalty_update cs)
    then show ?thesis by (simp add: powr_minus_divide)
  qed
qed

text \<open>
  The two iterations of the example with the solver stuck at \<open>x = 5\<close>. In the first
  the violation is 3, above \<open>nu = 10\<^sup>-\<^sup>0\<^sup>.\<^sup>1\<close>, and the function-tolerance test fails
  (\<open>f_prev\<close> is NaN): \<open>mu\<close> goes from 10 to 1000 and the multiplier stays 0. In the
  second the violation is 3 again and the test holds: the loop ends, \<open>mu\<close> stays
  1000 and the multiplier stays 0.
\<close>

theorem penalty_branch_amended_witness:
  "solve_iteration stuck_solver example_constrained_function
      (example_locals 10 (Fin 0) (Fin 0) 4 \<lparr>exit_condition = INTERNAL_ERROR\<rparr> 0
         (1 / (10 powr (1 / 10))) NaN (Fin 0) MInf (Fin 0))
     = Inr (None, example_locals 1000 (Fin 0) (Fin 3) 5 \<lparr>exit_condition = GRADIENT_TOLERANCE\<rparr> 1
                    (1 / (1000 powr (1 / 10))) NaN (Fin 4) (Fin 0) (Fin 3))
   \<and> dless (Fin (1 / (10 powr (1 / 10)))) (Fin 3)
   \<and> \<not> function_tolerance_test (Fin 4) NaN
          (function_improvement_tolerance example_constrained_function)
   \<and> map (\<lambda>(name, c). (name, lambda c))
        (constraints (solve_impl (example_locals 1000 (Fin 0) (Fin 3) 5
            \<lparr>exit_condition = GRADIENT_TOLERANCE\<rparr> 1 (1 / (1000 powr (1 / 10))) NaN (Fin 4)
            (Fin 0) (Fin 3))))
       = [(''x at most 2'', Fin 0)]
   \<and> mu (solve_impl (example_locals 1000 (Fin 0) (Fin 3) 5
            \<lparr>exit_condition = GRADIENT_TOLERANCE\<rparr> 1 (1 / (1000 powr (1 / 10))) NaN (Fin 4)
            (Fin 0) (Fin 3)))
       = 10 * 100
   \<and> nu (example_locals 1000 (Fin 0) (Fin 3) 5
            \<lparr>exit_condition = GRADIENT_TOLERANCE\<rparr> 1 (1 / (1000 powr (1 / 10))) NaN (Fin 4)
            (Fin 0) (Fin 3))
       = 1000 powr (- (1 / 10))
   \<and> solve_iteration stuck_solver example_constrained_function
      (example_locals 1000 (Fin 0) (Fin 3) 5 \<lparr>exit_condition = GRADIENT_TOLERANCE\<rparr> 1
         (1 / (1000 powr (1 / 10))) (Fin 4) (Fin 4) (Fin 0) (Fin 3))
     = Inr (Some FUNCTION_TOLERANCE,
            example_locals 1000 (Fin 0) (Fin 3) 5 \<lparr>exit_condition = FUNCTION_TOLERANCE\<rparr> 2
              (1 / (1000 powr (1 / 10))) (Fin 4) (Fin 4) (Fin 0) (Fin 3))
   \<and> dless (Fin (1 / (1000 powr (1 / 10)))) (Fin 3)
   \<and> function_tolerance_test (Fin 4) (Fin 4)
        (function_improvement_tolerance example_constrained_function)"
proof -
  let ?st0 = "example_locals 10 (Fin 0) (Fin 0) 4 \<lparr>exit_condition = INTERNAL_ERROR\<rparr> 0
                (1 / (10 powr (1 / 10))) NaN (Fin 0) MInf (Fin 0)"
  let ?st1 = "example_locals 1000 (Fin 0) (Fin 3) 5 \<lparr>exit_condition = GRADIENT_TOLERANCE\<rparr> 1
                (1 / (1000 powr (1 / 10))) NaN (Fin 4) (Fin 0) (Fin 3)"
  let ?st1' = "example_locals 1000 (Fin 0) (Fin 3) 5 \<lparr>exit_condition = GRADIENT_TOLERANCE\<rparr> 1
                (1 / (1000 powr (1 / 10))) (Fin 4) (Fin 4) (Fin 0) (Fin 3)"
  let ?st2 = "example_locals 1000 (Fin 0) (Fin 3) 5 \<lparr>exit_condition = FUNCTION_TOLERANCE\<rparr> 2
                (1 / (1000 powr (1 / 10))) (Fin 4) (Fin 4) (Fin 0) (Fin 3)"
  have pass1: "solve_iteration stuck_solver example_constrained_function ?st0 = Inr (None, ?st1)"
    using stuck_pass_1 [of "\<lparr>exit_condition = INTERNAL_ERROR\<rparr>" 0] by simp
  have pass2: "solve_iteration stuck_solver example_constrained_function ?st1'
                 = Inr (Some FUNCTION_TOLERANCE, ?st2)"
    using stuck_pass_2 [of "\<lparr>exit_condition = GRADIENT_TOLERANCE\<rparr>" 1]
    by (simp add: numeral_2_eq_2)
  have "1 / (10 powr (1 / 10)) \<le> (1::real)"
    by (rule nu_below_one) simp
  then have above1: "1 / (10 powr (1 / 10)) < (3::real)"
    by linarith
  have "1 / (1000 powr (1 / 10)) \<le> (1::real)"
    by (rule nu_below_one) simp
  then have above2: "1 / (1000 powr (1 / 10)) < (3::real)"
    by linarith
  have violation1: "dless (Fin (nu ?st0)) (max_violation ?st1)"
    using above1 by (simp add: example_locals_def)
  have violation2: "dless (Fin (nu ?st1')) (max_violation ?st2)"
    using above2 by (simp add: example_locals_def)
  have test1: "\<not> function_tolerance_test (f_value ?st1) (f_prev ?st0)
                    (function_improvement_tolerance example_constrained_function)"
    by (simp add: example_locals_def function_tolerance_test_def)
  have test2: "function_tolerance_test (f_value ?st2) (f_prev ?st1')
                    (function_improvement_tolerance example_constrained_function)"
    by (simp add: example_locals_def function_tolerance_test_def example_constrained_function_def)
  from penalty_branch_amended [OF pass1 violation1] test1
  have first: "map (\<lambda>(name, c). (name, lambda c)) (constraints (solve_impl ?st1))
                 = map (\<lambda>(name, c). (name, lambda c)) (constraints (solve_impl ?st0))
             \<and> mu (solve_impl ?st1) = mu (solve_impl ?st0) * 100
             \<and> nu ?st1 = mu (solve_impl ?st1) powr (- (1 / 10))"
    by (simp add: powr_minus_divide)
  from penalty_branch_amended [OF pass2 violation2] test2
  have second: "mu (solve_impl ?st2) = mu (solve_impl ?st1') \<and> nu ?st2 = nu ?st1'"
    by simp
  from first second pass1 pass2 above1 above2 test1 test2 show ?thesis
    by (simp add: example_locals_def example_implementation_def example_constraint_simps)
qed

section \<open>ConstrainedFunction: the outer loop\<close>

lemma solve_iteration_exit:
  assumes "solve_iteration solver cf st = Inr (Some ec, st')"
  shows "exit_condition (results st') = ec
       \<and> (ec = FUNCTION_TOLERANCE
            \<and> function_tolerance_test (f_value st') (f_prev st) (function_improvement_tolerance cf)
          \<or> ec = GRADIENT_TOLERANCE)"
  using assms by (cases rule: solve_iteration_cases) simp_all

lemma solve_loop_calls:
  "solve_loop solver cf iterations st = Inr out \<Longrightarrow> solver_calls st + 1 \<le> solver_calls out"
proof (induction solver cf iterations st rule: solve_loop.induct)
  case (1 solver cf iterations st)
  show ?case
  proof (cases "solve_iteration solver cf st")
    case (Inl e)
    with "1.prems" show ?thesis by (simp add: solve_loop_unfold [of solver cf iterations st])
  next
    case (Inr r)
    obtain stop st' where r: "r = (stop, st')" by (cases r)
    note calls = solve_iteration_calls [OF Inr [unfolded r]]
    show ?thesis
    proof (cases stop)
      case (Some ec)
      with "1.prems" Inr r calls show ?thesis
        by (simp add: solve_loop_unfold [of solver cf iterations st])
    next
      case None
      show ?thesis
      proof (cases "iterations + 1 \<ge> max_number_of_iterations cf")
        case True
        with "1.prems" Inr r None calls show ?thesis
          by (auto simp add: solve_loop_unfold [of solver cf iterations st])
      next
        case False
        with "1.prems" Inr r None
        have rec: "solve_loop solver cf (iterations + 1) (st'\<lparr>f_prev := f_value st'\<rparr>) = Inr out"
          by (simp add: solve_loop_unfold [of solver cf iterations st])
        from "1.IH" [OF Inr [unfolded r None] refl refl False rec] calls show ?thesis
          by simp
      qed
    qed
  qed
qed

lemma solve_loop_exit:
  "solve_loop solver cf iterations st = Inr out \<Longrightarrow>
   exit_condition (results out) \<in> {FUNCTION_TOLERANCE, GRADIENT_TOLERANCE, NO_CONVERGENCE}"
proof (induction solver cf iterations st rule: solve_loop.induct)
  case (1 solver cf iterations st)
  show ?case
  proof (cases "solve_iteration solver cf st")
    case (Inl e)
    with "1.prems" show ?thesis by (simp add: solve_loop_unfold [of solver cf iterations st])
  next
    case (Inr r)
    obtain stop st' where r: "r = (stop, st')" by (cases r)
    show ?thesis
    proof (cases stop)
      case (Some ec)
      with "1.prems" Inr r have "out = st'"
        by (simp add: solve_loop_unfold [of solver cf iterations st])
      with solve_iteration_exit [OF Inr [unfolded r Some]] show ?thesis
        by auto
    next
      case None
      show ?thesis
      proof (cases "iterations + 1 \<ge> max_number_of_iterations cf")
        case True
        with "1.prems" Inr r None show ?thesis
          by (auto simp add: solve_loop_unfold [of solver cf iterations st])
      next
        case False
        with "1.prems" Inr r None
        have rec: "solve_loop solver cf (iterations + 1) (st'\<lparr>f_prev := f_value st'\<rparr>) = Inr out"
          by (simp add: solve_loop_unfold [of solver cf iterations st])
        from "1.IH" [OF Inr [unfolded r None] refl refl False rec] show ?thesis .
      qed
    qed
  qed
qed

lemma solve_loop_first_pass:
  assumes "solve_loop solver cf iterations st = Inr out"
    and "f_prev st = NaN"
    and "exit_condition (results out) = FUNCTION_TOLERANCE"
  shows "solver_calls st + 2 \<le> solver_calls out"
proof (cases "solve_iteration solver cf st")
  case (Inl e)
  with assms(1) show ?thesis by (simp add: solve_loop_unfold [of solver cf iterations st])
next
  case (Inr r)
  obtain stop st' where r: "r = (stop, st')" by (cases r)
  note calls = solve_iteration_calls [OF Inr [unfolded r]]
  show ?thesis
  proof (cases stop)
    case (Some ec)
    with assms(1) Inr r have "out = st'"
      by (simp add: solve_loop_unfold [of solver cf iterations st])
    with solve_iteration_exit [OF Inr [unfolded r Some]] assms(2,3) show ?thesis
      by (auto simp add: function_tolerance_test_NaN)
  next
    case None
    show ?thesis
    proof (cases "iterations + 1 \<ge> max_number_of_iterations cf")
      case True
      with assms(1,3) Inr r None show ?thesis
        by (auto simp add: solve_loop_unfold [of solver cf iterations st])
    next
      case False
      with assms(1) Inr r None
      have rec: "solve_loop solver cf (iterations + 1) (st'\<lparr>f_prev := f_value st'\<rparr>) = Inr out"
        by (simp add: solve_loop_unfold [of solver cf iterations st])
      from solve_loop_calls [OF rec] calls show ?thesis by simp
    qed
  qed
qed

text \<open>
  Claim C9. For every \<open>ConstrainedFunction\<close> whose augmented Lagrangian has at least
  one variable, \<open>solve\<close> does not leave with \<open>FUNCTION_TOLERANCE\<close> in the first
  outer iteration: \<open>f_prev\<close> starts as NaN, and for every objective value \<open>f\<close> and
  every tolerance the test \<open>|f - f_prev| / (|f| + tolerance) < tolerance\<close> is false
  when \<open>f_prev\<close> is NaN. So whenever \<open>solve\<close> returns with \<open>FUNCTION_TOLERANCE\<close>,
  the inner solver has been called at least twice.
\<close>

theorem function_tolerance_needs_two_solver_calls:
  assumes "get_number_of_variables (augmented_lagrangian (impl cf)) \<noteq> 0"
    and "solve solver cf user results0 = Inr out"
    and "exit_condition (results out) = FUNCTION_TOLERANCE"
  shows "2 \<le> solver_calls out \<and> (\<forall>f tolerance. \<not> function_tolerance_test f NaN tolerance)"
proof -
  let ?st0 = "\<lparr> solve_impl = (impl cf)\<lparr>mu := 10\<rparr>, solve_user = user,
                  results = results0\<lparr>exit_condition := INTERNAL_ERROR\<rparr>,
                  solver_calls = 0,
                  nu = 1 / (10 powr (1 / 10)), f_prev = NaN, f_value = Fin 0,
                  infeasibility = MInf, max_violation = Fin 0 \<rparr>"
  from assms(1,2) obtain st where loop: "solve_loop solver cf 0 ?st0 = Inr st"
    and out: "out = solve_state.truncate st"
    by (auto simp add: solve_def split: sum.splits)
  have "exit_condition (results st) = FUNCTION_TOLERANCE"
    using assms(3) out by (simp add: solve_state.truncate_def)
  from solve_loop_first_pass [OF loop _ this] have "2 \<le> solver_calls st"
    by simp
  then show ?thesis
    by (simp add: out solve_state.truncate_def function_tolerance_test_NaN)
qed

text \<open>
  The example with the solver stuck at \<open>x = 5\<close>: the first pass raises \<open>mu\<close>, the
  second finds the objective unchanged and leaves with \<open>FUNCTION_TOLERANCE\<close> after
  two calls of the solver.
\<close>

theorem function_tolerance_needs_two_solver_calls_witness:
  "get_number_of_variables (augmented_lagrangian (impl example_constrained_function)) \<noteq> 0
   \<and> solve stuck_solver example_constrained_function example_user
        \<lparr>exit_condition = ARGUMENT_TOLERANCE\<rparr>
       = Inr (solve_state.truncate
                (example_locals 1000 (Fin 0) (Fin 3) 5 \<lparr>exit_condition = FUNCTION_TOLERANCE\<rparr> 2
                   (1 / (1000 powr (1 / 10))) (Fin 4) (Fin 4) (Fin 0) (Fin 3)))
   \<and> exit_condition (results (solve_state.truncate
                (example_locals 1000 (Fin 0) (Fin 3) 5 \<lparr>exit_condition = FUNCTION_TOLERANCE\<rparr> 2
                   (1 / (1000 powr (1 / 10))) (Fin 4) (Fin 4) (Fin 0) (Fin 3)))) = FUNCTION_TOLERANCE
   \<and> solver_calls (solve_state.truncate
                (example_locals 1000 (Fin 0) (Fin 3) 5 \<lparr>exit_condition = FUNCTION_TOLERANCE\<rparr> 2
                   (1 / (1000 powr (1 / 10))) (Fin 4) (Fin 4) (Fin 0) (Fin 3))) = 2
   \<and> \<not> function_tolerance_test (Fin 4) NaN (1 / 10 ^ 9)"
proof -
  have exit: "exit_condition (results (solve_state.truncate
                (example_locals 1000 (Fin 0) (Fin 3) 5 \<lparr>exit_condition = FUNCTION_TOLERANCE\<rparr> 2
                   (1 / (1000 powr (1 / 10))) (Fin 4) (Fin 4) (Fin 0) (Fin 3)))) = FUNCTION_TOLERANCE"
    by (simp add: solve_state.truncate_def example_locals_def)
  have calls: "solver_calls (solve_state.truncate
                (example_locals 1000 (Fin 0) (Fin 3) 5 \<lparr>exit_condition = FUNCTION_TOLERANCE\<rparr> 2
                   (1 / (1000 powr (1 / 10))) (Fin 4) (Fin 4) (Fin 0) (Fin 3))) = 2"
    by (simp add: solve_state.truncate_def example_locals_def)
  from function_tolerance_needs_two_solver_calls [OF example_has_variables stuck_run exit]
    example_has_variables stuck_run exit calls
  show ?thesis by simp
qed

section \<open>ConstrainedFunction: the exit condition\<close>

text \<open>
  Claim C3 says that the outer loop inspects the \<open>exit_condition\<close> the inner solver
  wrote and goes on only when it is a normal termination. In the example, with a
  solver that reports \<open>INTERNAL_ERROR\<close> at every call, \<open>solve\<close> calls the solver
  three times, as often as \<open>max_number_of_iterations\<close> allows, and returns
  \<open>NO_CONVERGENCE\<close>.
\<close>

theorem solve_exit_condition_counterexample:
  "snd (failing_solver example_implementation example_user) = \<lparr>exit_condition = INTERNAL_ERROR\<rparr>
   \<and> max_number_of_iterations example_constrained_function = 3
   \<and> solve failing_solver example_constrained_function example_user
        \<lparr>exit_condition = ARGUMENT_TOLERANCE\<rparr>
       = Inr (solve_state.truncate
                (example_locals 10000000 (Fin 0) (Fin 5) 7 \<lparr>exit_condition = NO_CONVERGENCE\<rparr> 3
                   (1 / (10000000 powr (1 / 10))) (Fin 9) (Fin 16) (Fin 0) (Fin 5)))
   \<and> solver_calls (solve_state.truncate
                (example_locals 10000000 (Fin 0) (Fin 5) 7 \<lparr>exit_condition = NO_CONVERGENCE\<rparr> 3
                   (1 / (10000000 powr (1 / 10))) (Fin 9) (Fin 16) (Fin 0) (Fin 5))) = 3"
  using failing_run
  by (simp add: failing_solver_def example_max_number_of_iterations solve_state.truncate_def
      example_locals_def)

lemma solve_iteration_ignores_results:
  "solve_iteration solver cf (st\<lparr>results := r, f_prev := previous\<rparr>)
     = solve_iteration solver cf (st\<lparr>f_prev := previous\<rparr>)"
  by (simp add: solve_iteration_def Let_def split: prod.splits sum.splits)

lemma solve_loop_ignores_results:
  "solve_loop solver cf iterations (st\<lparr>results := r, f_prev := previous\<rparr>)
     = solve_loop solver cf iterations (st\<lparr>f_prev := previous\<rparr>)"
  by (simp add: solve_loop_unfold [of solver cf iterations "st\<lparr>results := r, f_prev := previous\<rparr>"]
      solve_loop_unfold [of solver cf iterations "st\<lparr>f_prev := previous\<rparr>"]
      solve_iteration_ignores_results)

lemma solve_iteration_with_exit_condition:
  "solve_iteration (with_exit_condition ec solver) cf st =
     (case solve_iteration solver cf st of
        Inl e \<Rightarrow> Inl e
      | Inr (Some stop, st') \<Rightarrow> Inr (Some stop, st')
      | Inr (None, st') \<Rightarrow> Inr (None, st'\<lparr>results := (results st')\<lparr>exit_condition := ec\<rparr>\<rparr>))"
  by (simp add: solve_iteration_def with_exit_condition_def Let_def
      split: prod.splits sum.splits)

lemma solve_loop_with_exit_condition:
  "solve_loop (with_exit_condition ec solver) cf iterations st = solve_loop solver cf iterations st"
proof (induction solver cf iterations st rule: solve_loop.induct)
  case (1 solver cf iterations st)
  show ?case
  proof (cases "solve_iteration solver cf st")
    case (Inl e)
    then show ?thesis
      by (simp add: solve_loop_unfold [of _ cf iterations st] solve_iteration_with_exit_condition)
  next
    case (Inr r)
    obtain stop st' where r: "r = (stop, st')" by (cases r)
    show ?thesis
    proof (cases stop)
      case (Some x)
      with Inr r show ?thesis
        by (simp add: solve_loop_unfold [of _ cf iterations st]
            solve_iteration_with_exit_condition)
    next
      case None
      show ?thesis
      proof (cases "iterations + 1 \<ge> max_number_of_iterations cf")
        case True
        with Inr r None show ?thesis
          by (simp add: solve_loop_unfold [of _ cf iterations st]
              solve_iteration_with_exit_condition)
      next
        case False
        let ?next = "st'\<lparr>f_prev := f_value st'\<rparr>"
        have "solve_loop (with_exit_condition ec solver) cf iterations st
            = solve_loop (with_exit_condition ec solver) cf (iterations + 1)
                (st'\<lparr>results := (results st')\<lparr>exit_condition := ec\<rparr>,
                     f_prev := f_value st'\<rparr>)"
          using Inr r None False
          by (simp add: solve_loop_unfold [of "with_exit_condition ec solver" cf iterations st]
              solve_iteration_with_exit_condition)
        also have "\<dots> = solve_loop (with_exit_condition ec solver) cf (iterations + 1) ?next"
          by (rule solve_loop_ignores_results)
        also have "\<dots> = solve_loop solver cf (iterations + 1) ?next"
          by (rule "1.IH" [OF Inr [unfolded r None] refl refl False])
        also have "\<dots> = solve_loop solver cf iterations st"
          using Inr r None False
          by (simp add: solve_loop_unfold [of solver cf iterations st])
        finally show ?thesis .
      qed
    qed
  qed
qed

text \<open>
  Claim C3, amended. The outer loop of \<open>solve\<close> never reads the \<open>exit_condition\<close>
  the inner solver wrote: whatever condition the solver reports, the run of \<open>solve\<close>
  is the same, and the loop goes on until one of its own three tests stops it.
  Whenever \<open>solve\<close> returns, \<open>results->exit_condition\<close> is \<open>FUNCTION_TOLERANCE\<close>,
  \<open>GRADIENT_TOLERANCE\<close> or \<open>NO_CONVERGENCE\<close>; the loop writes no other value
  (\<open>solve\<close> writes \<open>INTERNAL_ERROR\<close> once, before the loop).
\<close>

theorem solve_exit_condition:
  "(solve solver cf user results0 = Inr out \<longrightarrow>
      exit_condition (results out) \<in> {FUNCTION_TOLERANCE, GRADIENT_TOLERANCE, NO_CONVERGENCE})
   \<and> solve (with_exit_condition ec solver) cf user results0 = solve solver cf user results0"
proof (intro conjI impI)
  assume run: "solve solver cf user results0 = Inr out"
  show "exit_condition (results out) \<in> {FUNCTION_TOLERANCE, GRADIENT_TOLERANCE, NO_CONVERGENCE}"
  proof (cases "get_number_of_variables (augmented_lagrangian (impl cf)) = 0")
    case True
    with run show ?thesis by (auto simp add: solve_def)
  next
    case False
    with run obtain st where loop: "solve_loop solver cf 0
                \<lparr> solve_impl = (impl cf)\<lparr>mu := 10\<rparr>, solve_user = user,
                  results = results0\<lparr>exit_condition := INTERNAL_ERROR\<rparr>,
                  solver_calls = 0,
                  nu = 1 / (10 powr (1 / 10)), f_prev = NaN, f_value = Fin 0,
                  infeasibility = MInf, max_violation = Fin 0 \<rparr> = Inr st"
      and out: "out = solve_state.truncate st"
      by (auto simp add: solve_def split: sum.splits)
    from solve_loop_exit [OF loop] show ?thesis
      by (simp add: out solve_state.truncate_def)
  qed
next
  show "solve (with_exit_condition ec solver) cf user results0 = solve solver cf user results0"
    by (simp add: solve_def solve_loop_with_exit_condition)
qed

text \<open>
  The run of the example with the failing solver ends with \<open>NO_CONVERGENCE\<close>, and it
  is the same run when the solver reports \<open>GRADIENT_TOLERANCE\<close> instead.
\<close>

theorem solve_exit_condition_witness:
  "solve failing_solver example_constrained_function example_user
        \<lparr>exit_condition = ARGUMENT_TOLERANCE\<rparr>
       = Inr (solve_state.truncate
                (example_locals 10000000 (Fin 0) (Fin 5) 7 \<lparr>exit_condition = NO_CONVERGENCE\<rparr> 3
                   (1 / (10000000 powr (1 / 10))) (Fin 9) (Fin 16) (Fin 0) (Fin 5)))
   \<and> exit_condition (results (solve_state.truncate
                (example_locals 10000000 (Fin 0) (Fin 5) 7 \<lparr>exit_condition = NO_CONVERGENCE\<rparr> 3
                   (1 / (10000000 powr (1 / 10))) (Fin 9) (Fin 16) (Fin 0) (Fin 5))))
        \<in> {FUNCTION_TOLERANCE, GRADIENT_TOLERANCE, NO_CONVERGENCE}
   \<and> solve (with_exit_condition GRADIENT_TOLERANCE failing_solver) example_constrained_function
        example_user \<lparr>exit_condition = ARGUMENT_TOLERANCE\<rparr>
       = Inr (solve_state.truncate
                (example_locals 10000000 (Fin 0) (Fin 5) 7 \<lparr>exit_condition = NO_CONVERGENCE\<rparr> 3
                   (1 / (10000000 powr (1 / 10))) (Fin 9) (Fin 16) (Fin 0) (Fin 5)))"
  using solve_exit_condition [of failing_solver example_constrained_function example_user
          "\<lparr>exit_condition = ARGUMENT_TOLERANCE\<rparr>"
          "solve_state.truncate
                (example_locals 10000000 (Fin 0) (Fin 5) 7 \<lparr>exit_condition = NO_CONVERGENCE\<rparr> 3
                   (1 / (10000000 powr (1 / 10))) (Fin 9) (Fin 16) (Fin 0) (Fin 5))"
          GRADIENT_TOLERANCE]
    failing_run
  by simp

end
